theory Spec2Isabelle
  imports Complex_Main "HOL-Library.Word" "HOL-Library.Sublist"
begin

section \<open>GeoJSON ingestion into PostGIS: a model of \<^verbatim>\<open>ingest.py\<close>\<close>

text \<open>
  The script reads a GeoJSON file, derives a table definition from it, asks the operator
  for confirmation, creates the table and inserts one row per feature. Everything the
  script does to the outside world (files, console, database) is recorded as an event in a
  trace; everything the outside world answers is taken from an environment, whose answers
  may depend on the trace so far. Python exceptions are values of a sum type.
\<close>

subsection \<open>Python values\<close>

text \<open>
  A parsed JSON document, as \<^verbatim>\<open>json.load\<close> returns it: \<^verbatim>\<open>None\<close>, \<^verbatim>\<open>bool\<close>, \<^verbatim>\<open>int\<close>,
  \<^verbatim>\<open>float\<close>, \<^verbatim>\<open>str\<close>, \<^verbatim>\<open>list\<close> and \<^verbatim>\<open>dict\<close>. A dict is an association list in
  insertion order (its keys are distinct in a parsed document). A character is one code
  point below 256.
\<close>

datatype json =
    JNull
  | JBool bool
  | JInt int
  | JFloat real
  | JStr string
  | JArr "json list"
  | JObj "(string \<times> json) list"

datatype exc_class =
    UnicodeDecodeError | OSError | JSONDecodeError | AttributeError | TypeError
  | ValueError | KeyError | IndexError | EOFError | StopIteration | UnboundLocalError
  | LookupError | DatabaseError | PlainException

text \<open>An exception object: its class and \<^verbatim>\<open>str(e)\<close>. All classes derive from \<^verbatim>\<open>Exception\<close>.\<close>

datatype py_exception = Raised exc_class string

fun exc_class_of :: "py_exception \<Rightarrow> exc_class" where
  "exc_class_of (Raised c m) = c"

fun exc_str :: "py_exception \<Rightarrow> string" where
  "exc_str (Raised c m) = m"

definition sq :: string where
  "sq = [CHR 0x27]"

definition dq :: string where
  "dq = [CHR 0x22]"

definition nl :: string where
  "nl = [CHR 0x0A]"

fun type_name :: "json \<Rightarrow> string" where
  "type_name JNull = ''NoneType''"
| "type_name (JBool b) = ''bool''"
| "type_name (JInt i) = ''int''"
| "type_name (JFloat r) = ''float''"
| "type_name (JStr s) = ''str''"
| "type_name (JArr xs) = ''list''"
| "type_name (JObj kv) = ''dict''"

definition attribute_error :: "json \<Rightarrow> string \<Rightarrow> py_exception" where
  "attribute_error v a =
     Raised AttributeError (sq @ type_name v @ sq @ '' object has no attribute '' @ sq @ a @ sq)"

definition not_iterable :: "json \<Rightarrow> py_exception" where
  "not_iterable v =
     Raised TypeError (''argument of type '' @ sq @ type_name v @ sq @ '' is not iterable'')"

definition not_subscriptable :: "json \<Rightarrow> py_exception" where
  "not_subscriptable v =
     Raised TypeError (sq @ type_name v @ sq @ '' object is not subscriptable'')"

text \<open>Sequencing of pure computations that may raise.\<close>

definition and_then :: "py_exception + 'a \<Rightarrow> ('a \<Rightarrow> py_exception + 'b) \<Rightarrow> py_exception + 'b" where
  "and_then r f = (case r of Inl e \<Rightarrow> Inl e | Inr x \<Rightarrow> f x)"

text \<open>\<^verbatim>\<open>v.get(k, d)\<close>: only a dict has the method.\<close>

fun py_get :: "json \<Rightarrow> string \<Rightarrow> json \<Rightarrow> py_exception + json" where
  "py_get (JObj kv) k d = Inr (case map_of kv k of Some x \<Rightarrow> x | None \<Rightarrow> d)"
| "py_get v k d = Inl (attribute_error v ''get'')"

text \<open>\<^verbatim>\<open>len(v)\<close>.\<close>

fun py_len :: "json \<Rightarrow> py_exception + nat" where
  "py_len (JArr xs) = Inr (length xs)"
| "py_len (JStr s) = Inr (length s)"
| "py_len (JObj kv) = Inr (length kv)"
| "py_len v = Inl (Raised TypeError (''object of type '' @ sq @ type_name v @ sq @ '' has no len()''))"

fun is_substr :: "string \<Rightarrow> string \<Rightarrow> bool" where
  "is_substr p [] = (p = [])"
| "is_substr p (c # cs) = (prefix p (c # cs) \<or> is_substr p cs)"

text \<open>\<^verbatim>\<open>k in v\<close> for a string \<open>k\<close>: a key of a dict, an element of a list, a substring of a string.\<close>

fun py_in :: "string \<Rightarrow> json \<Rightarrow> py_exception + bool" where
  "py_in k (JObj kv) = Inr (map_of kv k \<noteq> None)"
| "py_in k (JArr xs) = Inr (JStr k \<in> set xs)"
| "py_in k (JStr s) = Inr (is_substr k s)"
| "py_in k v = Inl (not_iterable v)"

text \<open>\<^verbatim>\<open>v[k]\<close> for a string \<open>k\<close>.\<close>

fun py_getitem :: "json \<Rightarrow> string \<Rightarrow> py_exception + json" where
  "py_getitem (JObj kv) k =
     (case map_of kv k of Some x \<Rightarrow> Inr x | None \<Rightarrow> Inl (Raised KeyError (sq @ k @ sq)))"
| "py_getitem (JArr xs) k =
     Inl (Raised TypeError ''list indices must be integers or slices, not str'')"
| "py_getitem (JStr s) k =
     Inl (Raised TypeError (''string indices must be integers, not '' @ sq @ ''str'' @ sq))"
| "py_getitem v k = Inl (not_subscriptable v)"

text \<open>\<^verbatim>\<open>v[0]\<close>. The keys of a parsed dict are strings, so \<open>0\<close> is never one of them.\<close>

fun py_getitem0 :: "json \<Rightarrow> py_exception + json" where
  "py_getitem0 (JArr []) = Inl (Raised IndexError ''list index out of range'')"
| "py_getitem0 (JArr (x # xs)) = Inr x"
| "py_getitem0 (JStr []) = Inl (Raised IndexError ''string index out of range'')"
| "py_getitem0 (JStr (c # cs)) = Inr (JStr [c])"
| "py_getitem0 (JObj kv) = Inl (Raised KeyError ''0'')"
| "py_getitem0 v = Inl (not_subscriptable v)"

text \<open>\<^verbatim>\<open>for x in v\<close>: the sequence the loop runs over.\<close>

fun py_iter :: "json \<Rightarrow> py_exception + json list" where
  "py_iter (JArr xs) = Inr xs"
| "py_iter (JStr s) = Inr (map (\<lambda>c. JStr [c]) s)"
| "py_iter (JObj kv) = Inr (map (\<lambda>p. JStr (fst p)) kv)"
| "py_iter v = Inl (Raised TypeError (sq @ type_name v @ sq @ '' object is not iterable''))"

text \<open>\<^verbatim>\<open>v.items()\<close>, \<^verbatim>\<open>v.keys()\<close>, \<^verbatim>\<open>v.values()\<close>.\<close>

fun py_items :: "json \<Rightarrow> py_exception + (string \<times> json) list" where
  "py_items (JObj kv) = Inr kv"
| "py_items v = Inl (attribute_error v ''items'')"

fun py_keys :: "json \<Rightarrow> py_exception + string list" where
  "py_keys (JObj kv) = Inr (map fst kv)"
| "py_keys v = Inl (attribute_error v ''keys'')"

fun py_values :: "json \<Rightarrow> py_exception + json list" where
  "py_values (JObj kv) = Inr (map snd kv)"
| "py_values v = Inl (attribute_error v ''values'')"

text \<open>A list or a dict cannot be a member of a set.\<close>

fun hashable :: "json \<Rightarrow> bool" where
  "hashable (JArr xs) = False"
| "hashable (JObj kv) = False"
| "hashable v = True"

text \<open>
  \<^verbatim>\<open>isinstance(v, int)\<close>, \<^verbatim>\<open>isinstance(v, float)\<close>, \<^verbatim>\<open>isinstance(v, bool)\<close>. In Python
  \<^verbatim>\<open>bool\<close> is a subclass of \<^verbatim>\<open>int\<close>: \<^verbatim>\<open>isinstance(True, int)\<close> is \<^verbatim>\<open>True\<close>.
\<close>

fun isinstance_int :: "json \<Rightarrow> bool" where
  "isinstance_int (JInt i) = True"
| "isinstance_int (JBool b) = True"
| "isinstance_int v = False"

fun isinstance_float :: "json \<Rightarrow> bool" where
  "isinstance_float (JFloat r) = True"
| "isinstance_float v = False"

fun isinstance_bool :: "json \<Rightarrow> bool" where
  "isinstance_bool (JBool b) = True"
| "isinstance_bool v = False"

subsection \<open>Strings\<close>

text \<open>\<^verbatim>\<open>sep.join(xs)\<close>.\<close>

fun join :: "string \<Rightarrow> string list \<Rightarrow> string" where
  "join sep [] = []"
| "join sep [x] = x"
| "join sep (x # y # ys) = x @ sep @ join sep (y # ys)"

text \<open>\<^verbatim>\<open>s.replace(a, b)\<close> for one-character strings \<open>a\<close> and \<open>b\<close>.\<close>

definition replace_char :: "char \<Rightarrow> char \<Rightarrow> string \<Rightarrow> string" where
  "replace_char a b s = map (\<lambda>c. if c = a then b else c) s"

text \<open>\<^verbatim>\<open>s.split(sep)\<close> for a one-character separator: never the empty list.\<close>

fun split_char :: "char \<Rightarrow> string \<Rightarrow> string list" where
  "split_char sep [] = [[]]"
| "split_char sep (c # cs) =
     (if c = sep then [] # split_char sep cs
      else (case split_char sep cs of [] \<Rightarrow> [[c]] | w # ws \<Rightarrow> (c # w) # ws))"

text \<open>\<^verbatim>\<open>s.lower()\<close> on code points below 256: A to Z, and the accented capitals.\<close>

definition lower_char :: "char \<Rightarrow> char" where
  "lower_char c =
     (let n = (of_char c :: nat) in
      if (65 \<le> n \<and> n \<le> 90) \<or> (192 \<le> n \<and> n \<le> 222 \<and> n \<noteq> 215) then char_of (n + 32) else c)"

definition lower :: "string \<Rightarrow> string" where
  "lower s = map lower_char s"

definition is_ascii_digit :: "char \<Rightarrow> bool" where
  "is_ascii_digit c = (let n = (of_char c :: nat) in 48 \<le> n \<and> n \<le> 57)"

definition digit_val :: "char \<Rightarrow> nat" where
  "digit_val c = (of_char c :: nat) - 48"

text \<open>
  \<^verbatim>\<open>s.isdigit()\<close>: non-empty and every character a digit; below 256 the superscripts
  one, two and three count as digits too.
\<close>

definition isdigit :: "string \<Rightarrow> bool" where
  "isdigit s = (s \<noteq> [] \<and>
     list_all (\<lambda>c. is_ascii_digit c \<or> (of_char c :: nat) \<in> {178, 179, 185}) s)"

definition is_space :: "char \<Rightarrow> bool" where
  "is_space c = (let n = (of_char c :: nat) in
     (9 \<le> n \<and> n \<le> 13) \<or> (28 \<le> n \<and> n \<le> 32) \<or> n = 133 \<or> n = 160)"

definition strip :: "string \<Rightarrow> string" where
  "strip s = rev (dropWhile is_space (rev (dropWhile is_space s)))"

text \<open>
  The digits of \<^verbatim>\<open>int(s)\<close>: decimal digits, single underscores allowed between two digits.
  The flag says whether the previous character was a digit.
\<close>

fun parse_digits :: "nat \<Rightarrow> bool \<Rightarrow> string \<Rightarrow> nat option" where
  "parse_digits acc prev [] = (if prev then Some acc else None)"
| "parse_digits acc prev (c # cs) =
     (if is_ascii_digit c then parse_digits (acc * 10 + digit_val c) True cs
      else if c = CHR ''_'' \<and> prev then parse_digits acc False cs
      else None)"

text \<open>\<^verbatim>\<open>int(s)\<close> for a string: surrounding white space, an optional sign, the digits.\<close>

definition py_int :: "string \<Rightarrow> py_exception + int" where
  "py_int s =
     (let t = strip s;
          neg = (t \<noteq> [] \<and> hd t = CHR ''-'');
          body = (if t \<noteq> [] \<and> (hd t = CHR ''-'' \<or> hd t = CHR ''+'') then tl t else t)
      in case parse_digits 0 False body of
           None \<Rightarrow> Inl (Raised ValueError
                     (''invalid literal for int() with base 10: '' @ sq @ s @ sq))
         | Some n \<Rightarrow> Inr (if neg then - int n else int n))"

text \<open>\<^verbatim>\<open>str(n)\<close> for integers.\<close>

fun str_nat :: "nat \<Rightarrow> string" where
  "str_nat n =
     (if n < 10 then [''0123456789'' ! n]
      else str_nat (n div 10) @ [''0123456789'' ! (n mod 10)])"

declare str_nat.simps [simp del]

definition str_int :: "int \<Rightarrow> string" where
  "str_int i = (if i < 0 then ''-'' @ str_nat (nat (- i)) else str_nat (nat i))"

text \<open>\<^verbatim>\<open>repr\<close> of a list of strings without quotes in them, as an f-string prints it.\<close>

definition repr_str_list :: "string list \<Rightarrow> string" where
  "repr_str_list xs = ''['' @ join '', '' (map (\<lambda>s. sq @ s @ sq) xs) @ '']''"

subsection \<open>Events, environment, programs\<close>

text \<open>
  One event per interaction with the outside world, with the world's answer: \<open>None\<close> in an
  answer of type \<open>string option\<close> means that the call returned, \<open>Some m\<close> that it raised an
  error with message \<open>m\<close> (for \<open>Input\<close> the answer is the line read, \<open>None\<close> at end of
  input).
\<close>

datatype event =
    Print string
  | PPrint json
  | OpenRead string string
  | WriteFile string string "string option"
  | PathExists string bool
  | Input string "string option"
  | DbConnect "string option"
  | DbCursor "string option"
  | DbExecute string "json list" "string option"
  | DbFetchone "string + json"
  | DbCommit "string option"
  | CursorClose "string option"
  | ConnClose "string option"

text \<open>
  The environment. The first group is the outside world, asked with the trace so far. The
  second group is library code the script calls and this repository does not hold: the
  UTF-8, Latin-1 and CP-1252 decoders (\<open>Inl m\<close> is \<^verbatim>\<open>UnicodeDecodeError\<close> with
  message \<open>m\<close>), the JSON parser and printer, the iteration order of a set given the
  sequence of values added to it, \<^verbatim>\<open>str\<close> of a float, list or dict, and
  \<^verbatim>\<open>int(inserted/total*100)\<close> in floating point.
\<close>

record env =
  fs_read :: "event list \<Rightarrow> string \<Rightarrow> string + 8 word list"
  fs_write :: "event list \<Rightarrow> string \<Rightarrow> string \<Rightarrow> string option"
  fs_exists :: "event list \<Rightarrow> string \<Rightarrow> bool"
  stdin :: "event list \<Rightarrow> string \<Rightarrow> string option"
  db_connect :: "event list \<Rightarrow> string option"
  db_cursor :: "event list \<Rightarrow> string option"
  db_execute :: "event list \<Rightarrow> string \<Rightarrow> json list \<Rightarrow> string option"
  db_fetchone :: "event list \<Rightarrow> string + json"
  db_commit :: "event list \<Rightarrow> string option"
  db_cursor_close :: "event list \<Rightarrow> string option"
  db_close :: "event list \<Rightarrow> string option"
  utf8_decode :: "8 word list \<Rightarrow> string + nat list"
  latin1_decode :: "8 word list \<Rightarrow> string + nat list"
  cp1252_decode :: "8 word list \<Rightarrow> string + nat list"
  json_loads :: "nat list \<Rightarrow> string + json"
  json_dumps :: "json \<Rightarrow> string"
  set_iter :: "json list \<Rightarrow> json list"
  str_other :: "json \<Rightarrow> string"
  percent :: "nat \<Rightarrow> nat \<Rightarrow> int"

text \<open>A program maps the trace so far to a result or an exception, and the extended trace.\<close>

type_synonym 'a prog = "event list \<Rightarrow> (py_exception + 'a) \<times> event list"

definition ret :: "'a \<Rightarrow> 'a prog" where
  "ret x = (\<lambda>t. (Inr x, t))"

definition raise :: "py_exception \<Rightarrow> 'a prog" where
  "raise e = (\<lambda>t. (Inl e, t))"

definition lift :: "py_exception + 'a \<Rightarrow> 'a prog" where
  "lift r = (\<lambda>t. (r, t))"

definition bnd :: "'a prog \<Rightarrow> ('a \<Rightarrow> 'b prog) \<Rightarrow> 'b prog" where
  "bnd m f = (\<lambda>t. case m t of (Inl e, t') \<Rightarrow> (Inl e, t') | (Inr x, t') \<Rightarrow> f x t')"

text \<open>\<^verbatim>\<open>try: m  except Exception as e: h(e)\<close>.\<close>

definition try_except :: "'a prog \<Rightarrow> (py_exception \<Rightarrow> 'a prog) \<Rightarrow> 'a prog" where
  "try_except m h = (\<lambda>t. case m t of (Inl e, t') \<Rightarrow> h e t' | (Inr x, t') \<Rightarrow> (Inr x, t'))"

definition emit :: "event \<Rightarrow> unit prog" where
  "emit ev = (\<lambda>t. (Inr (), t @ [ev]))"

definition print :: "string \<Rightarrow> unit prog" where
  "print s = emit (Print s)"

text \<open>A call that returns nothing: the event carries the answer, an error is raised.\<close>

definition call :: "exc_class \<Rightarrow> (string option \<Rightarrow> event) \<Rightarrow> string option \<Rightarrow> unit prog" where
  "call c ev ans =
     (\<lambda>t. (case ans of None \<Rightarrow> Inr () | Some m \<Rightarrow> Inl (Raised c m), t @ [ev ans]))"

definition py_input :: "env \<Rightarrow> string \<Rightarrow> string prog" where
  "py_input E prompt =
     (\<lambda>t. let a = stdin E t prompt in
        (case a of None \<Rightarrow> Inl (Raised EOFError ''EOF when reading a line'') | Some s \<Rightarrow> Inr s,
         t @ [Input prompt a]))"

definition cursor_execute :: "env \<Rightarrow> string \<Rightarrow> json list \<Rightarrow> unit prog" where
  "cursor_execute E sql ps = (\<lambda>t. call DatabaseError (DbExecute sql ps) (db_execute E t sql ps) t)"

definition conn_commit :: "env \<Rightarrow> unit prog" where
  "conn_commit E = (\<lambda>t. call DatabaseError DbCommit (db_commit E t) t)"

definition conn_cursor :: "env \<Rightarrow> unit prog" where
  "conn_cursor E = (\<lambda>t. call DatabaseError DbCursor (db_cursor E t) t)"

definition write_file :: "env \<Rightarrow> string \<Rightarrow> string \<Rightarrow> unit prog" where
  "write_file E name content =
     (\<lambda>t. call OSError (WriteFile name content) (fs_write E t name content) t)"

text \<open>\<^verbatim>\<open>str(v)\<close> as an f-string renders a value.\<close>

definition py_str :: "env \<Rightarrow> json \<Rightarrow> string" where
  "py_str E v =
     (case v of JStr s \<Rightarrow> s | JNull \<Rightarrow> ''None''
      | JBool b \<Rightarrow> (if b then ''True'' else ''False'')
      | JInt i \<Rightarrow> str_int i | _ \<Rightarrow> str_other E v)"

subsection \<open>\<^verbatim>\<open>examine_geojson\<close>\<close>

definition encodings_to_try :: "string list" where
  "encodings_to_try = [''utf-8'', ''latin-1'', ''cp1252'']"

text \<open>\<^verbatim>\<open>UnicodeDecodeError\<close> from a decoder's answer.\<close>

definition decoded :: "string + nat list \<Rightarrow> py_exception + nat list" where
  "decoded r = (case r of Inl m \<Rightarrow> Inl (Raised UnicodeDecodeError m) | Inr txt \<Rightarrow> Inr txt)"

text \<open>Decoding the bytes of the file under a named encoding.\<close>

definition decode :: "env \<Rightarrow> string \<Rightarrow> 8 word list \<Rightarrow> py_exception + nat list" where
  "decode E encoding bs =
     (if encoding = ''utf-8'' then decoded (utf8_decode E bs)
      else if encoding = ''latin-1'' then decoded (latin1_decode E bs)
      else if encoding = ''cp1252'' then decoded (cp1252_decode E bs)
      else Inl (Raised LookupError (''unknown encoding: '' @ encoding)))"

text \<open>Lines 23 and 24: open the file under one encoding, read and decode it, parse it.\<close>

definition load_json :: "env \<Rightarrow> string \<Rightarrow> string \<Rightarrow> json prog" where
  "load_json E file_path encoding =
     bnd (emit (OpenRead file_path encoding)) (\<lambda>_ t.
       (case fs_read E t file_path of
          Inl m \<Rightarrow> Inl (Raised OSError m)
        | Inr bs \<Rightarrow>
            and_then (decode E encoding bs) (\<lambda>txt.
              case json_loads E txt of
                Inl m \<Rightarrow> Inl (Raised JSONDecodeError m)
              | Inr data \<Rightarrow> Inr data), t))"

text \<open>
  Lines 21 to 29: the loop over the encodings. Only \<^verbatim>\<open>UnicodeDecodeError\<close> is caught; any
  other exception of the attempt leaves the loop. The last argument is the rest of the
  list still to try; a loop that ends without \<^verbatim>\<open>break\<close> leaves \<^verbatim>\<open>data\<close> unbound.
\<close>

fun encoding_loop :: "env \<Rightarrow> string \<Rightarrow> string list \<Rightarrow> json prog" where
  "encoding_loop E file_path [] =
     raise (Raised UnboundLocalError
       (''cannot access local variable '' @ sq @ ''data'' @ sq @
        '' where it is not associated with a value''))"
| "encoding_loop E file_path (encoding # rest) =
     try_except (load_json E file_path encoding)
       (\<lambda>e. if exc_class_of e = UnicodeDecodeError then
               (if encoding = last encodings_to_try then
                  raise (Raised PlainException
                    (''Could not decode file with any of these encodings: '' @
                     repr_str_list encodings_to_try))
                else encoding_loop E file_path rest)
             else raise e)"

text \<open>
  Lines 40 and 41 for one feature. The set \<^verbatim>\<open>geometry_types\<close> is kept as the list of the
  values added to it, in the order added: membership is membership in the list, the set
  is empty when the list is, and its iteration order is the environment's.
\<close>

definition add_geometry_type :: "json \<Rightarrow> json list \<Rightarrow> py_exception + json list" where
  "add_geometry_type feature geometry_types =
     and_then (py_in ''geometry'' feature) (\<lambda>has_geometry.
       if \<not> has_geometry then Inr geometry_types
       else
         and_then (py_getitem feature ''geometry'') (\<lambda>g.
         and_then (py_in ''type'' g) (\<lambda>has_type.
           if \<not> has_type then Inr geometry_types
           else
             and_then (py_getitem g ''type'') (\<lambda>ty.
               if hashable ty then Inr (geometry_types @ [ty])
               else Inl (Raised TypeError (''unhashable type: '' @ sq @ type_name ty @ sq))))))"

fun collect_geometry_types :: "json list \<Rightarrow> json list \<Rightarrow> py_exception + json list" where
  "collect_geometry_types [] geometry_types = Inr geometry_types"
| "collect_geometry_types (feature # rest) geometry_types =
     and_then (add_geometry_type feature geometry_types) (collect_geometry_types rest)"

text \<open>Lines 43 to 51. \<^verbatim>\<open>next(iter(s))\<close> is the first element in iteration order.\<close>

definition resolve_geometry_type :: "env \<Rightarrow> json list \<Rightarrow> py_exception + json" where
  "resolve_geometry_type E geometry_types =
     (if JStr ''MultiPolygon'' \<in> set geometry_types \<or>
         (JStr ''Polygon'' \<in> set geometry_types \<and> JStr ''MultiPolygon'' \<in> set geometry_types)
      then Inr (JStr ''MultiPolygon'')
      else if JStr ''MultiLineString'' \<in> set geometry_types \<or>
         (JStr ''LineString'' \<in> set geometry_types \<and> JStr ''MultiLineString'' \<in> set geometry_types)
      then Inr (JStr ''MultiLineString'')
      else if JStr ''MultiPoint'' \<in> set geometry_types \<or>
         (JStr ''Point'' \<in> set geometry_types \<and> JStr ''MultiPoint'' \<in> set geometry_types)
      then Inr (JStr ''MultiPoint'')
      else if geometry_types \<noteq> [] then
        (case set_iter E geometry_types of
           [] \<Rightarrow> Inl (Raised StopIteration [])
         | x # xs \<Rightarrow> Inr x)
      else Inr JNull)"

text \<open>The items of \<^verbatim>\<open>', '.join(...)\<close>: every one must be a string.\<close>

fun strs_of :: "json list \<Rightarrow> nat \<Rightarrow> py_exception + string list" where
  "strs_of [] i = Inr []"
| "strs_of (JStr s # xs) i = and_then (strs_of xs (i + 1)) (\<lambda>r. Inr (s # r))"
| "strs_of (v # xs) i =
     Inl (Raised TypeError (''sequence item '' @ str_nat i @ '': expected str instance, '' @
                            type_name v @ '' found''))"

record geojson_info =
  feature_count :: nat
  geometry_type :: json
  properties :: json
  raw_data :: json

text \<open>Lines 31 to 41: the feature count, the first feature's properties, the types seen.\<close>

definition inspect_features :: "json \<Rightarrow> py_exception + nat \<times> json \<times> json list" where
  "inspect_features data =
     and_then (py_get data ''features'' (JArr [])) (\<lambda>fv.
     and_then (py_len fv) (\<lambda>count.
       if count > 0 then
         and_then (py_getitem data ''features'') (\<lambda>fs.
         and_then (py_getitem0 fs) (\<lambda>first_feature.
         and_then (py_get first_feature ''properties'' (JObj [])) (\<lambda>props.
         and_then (py_iter fs) (\<lambda>features.
         and_then (collect_geometry_types features []) (\<lambda>geometry_types.
           Inr (count, props, geometry_types))))))
       else Inr (count, JNull, [])))"

definition examine_geojson :: "env \<Rightarrow> string \<Rightarrow> geojson_info option prog" where
  "examine_geojson E file_path =
     try_except
       (bnd (encoding_loop E file_path encodings_to_try) (\<lambda>data.
        bnd (lift (inspect_features data)) (\<lambda>(count, props, geometry_types).
        bnd (lift (resolve_geometry_type E geometry_types)) (\<lambda>gtype.
        bnd (print (nl @ ''GeoJSON Analysis:'')) (\<lambda>_.
        bnd (print (''Total features: '' @ str_nat count)) (\<lambda>_.
        bnd (lift (strs_of (set_iter E geometry_types) 0)) (\<lambda>names.
        bnd (print (''Geometry types found: '' @ join '', '' names)) (\<lambda>_.
        bnd (print (''Selected geometry type for table: '' @ py_str E gtype)) (\<lambda>_.
        bnd (print ''Properties structure:'') (\<lambda>_.
        bnd (emit (PPrint props)) (\<lambda>_.
        ret (Some \<lparr>feature_count = count, geometry_type = gtype,
                   properties = props, raw_data = data\<rparr>))))))))))))
       (\<lambda>e. bnd (print (''Error examining GeoJSON: '' @ exc_str e)) (\<lambda>_. ret None))"

subsection \<open>\<^verbatim>\<open>ingest_geojson_to_postgis\<close>\<close>

definition postgis_type_map :: "(string \<times> string) list" where
  "postgis_type_map =
     [(''Point'', ''POINT''), (''LineString'', ''LINESTRING''), (''Polygon'', ''POLYGON''),
      (''MultiPoint'', ''MULTIPOINT''), (''MultiLineString'', ''MULTILINESTRING''),
      (''MultiPolygon'', ''MULTIPOLYGON'')]"

text \<open>Line 94: \<^verbatim>\<open>postgis_type_map.get(geometry_type, 'GEOMETRY')\<close>.\<close>

definition postgis_type_of :: "json \<Rightarrow> string" where
  "postgis_type_of gtype =
     (case gtype of
        JStr s \<Rightarrow> (case map_of postgis_type_map s of Some t \<Rightarrow> t | None \<Rightarrow> ''GEOMETRY'')
      | _ \<Rightarrow> ''GEOMETRY'')"

fun py_split_colon :: "json \<Rightarrow> py_exception + string list" where
  "py_split_colon (JStr s) = Inr (split_char CHR '':'' s)"
| "py_split_colon v = Inl (attribute_error v ''split'')"

text \<open>
  Lines 97 to 106: the SRID named by the document's CRS block, if there is one. A
  \<^verbatim>\<open>ValueError\<close> of \<^verbatim>\<open>int\<close> is passed over.
\<close>

definition detect_crs :: "json \<Rightarrow> py_exception + int option" where
  "detect_crs data =
     and_then (py_in ''crs'' data) (\<lambda>has_crs.
       if \<not> has_crs then Inr None
       else
         and_then (py_getitem data ''crs'') (\<lambda>crs.
         and_then (py_get crs ''type'' JNull) (\<lambda>ty.
           if ty \<noteq> JStr ''name'' then Inr None
           else
             and_then (py_in ''properties'' crs) (\<lambda>has_props.
               if \<not> has_props then Inr None
               else
                 and_then (py_getitem crs ''properties'') (\<lambda>ps.
                 and_then (py_get ps ''name'' (JStr [])) (\<lambda>name.
                 and_then (py_in ''EPSG'' name) (\<lambda>has_epsg.
                   if \<not> has_epsg then Inr None
                   else
                     and_then (py_split_colon name) (\<lambda>parts.
                       case py_int (last parts) of
                         Inr n \<Rightarrow> Inr (Some n)
                       | Inl e \<Rightarrow> if exc_class_of e = ValueError then Inr None else Inl e))))))))"

text \<open>Lines 96 to 110.\<close>

definition resolve_source_srid :: "int option \<Rightarrow> json \<Rightarrow> int prog" where
  "resolve_source_srid source_srid data =
     (case source_srid of
        Some n \<Rightarrow> ret n
      | None \<Rightarrow>
          bnd (lift (detect_crs data)) (\<lambda>detected.
            case detected of
              Some n \<Rightarrow> bnd (print (''Detected source SRID: '' @ str_int n)) (\<lambda>_. ret n)
            | None \<Rightarrow>
                bnd (print (''No CRS specified in GeoJSON. Assuming EPSG:'' @ str_int 4326))
                  (\<lambda>_. ret 4326)))"

text \<open>Lines 114 to 120: the column type of one property value, in the order of the source.\<close>

definition col_type :: "json \<Rightarrow> string" where
  "col_type prop_value =
     (if isinstance_int prop_value then ''INTEGER''
      else if isinstance_float prop_value then ''NUMERIC''
      else if isinstance_bool prop_value then ''BOOLEAN''
      else ''TEXT'')"

text \<open>Line 122.\<close>

definition column_def :: "string \<times> json \<Rightarrow> string" where
  "column_def p = dq @ fst p @ dq @ '' '' @ col_type (snd p)"

definition spaces :: "nat \<Rightarrow> string" where
  "spaces n = replicate n CHR '' ''"

text \<open>Lines 125 to 131.\<close>

definition create_table_sql :: "string \<Rightarrow> string \<Rightarrow> string \<Rightarrow> int \<Rightarrow> string" where
  "create_table_sql table_name columns_sql postgis_type target_srid =
     nl @ spaces 8 @ ''CREATE TABLE IF NOT EXISTS '' @ table_name @ '' ('' @ nl @
     spaces 12 @ ''id SERIAL PRIMARY KEY,'' @ nl @
     spaces 12 @ columns_sql @ '','' @ nl @
     spaces 12 @ ''geom GEOMETRY('' @ postgis_type @ '', '' @ str_int target_srid @ '')'' @ nl @
     spaces 8 @ '');'' @ nl @
     spaces 8"

text \<open>Lines 164 to 172.\<close>

definition insert_sql :: "string \<Rightarrow> string list \<Rightarrow> string list \<Rightarrow> int \<Rightarrow> int \<Rightarrow> string" where
  "insert_sql table_name prop_names placeholders source_srid target_srid =
     nl @ spaces 12 @ ''INSERT INTO '' @ table_name @ '' ('' @ nl @
     spaces 16 @ join '', '' prop_names @ '','' @ nl @
     spaces 16 @ ''geom'' @ nl @
     spaces 12 @ '') VALUES ('' @ nl @
     spaces 16 @ join '', '' placeholders @ '','' @ nl @
     spaces 16 @ ''ST_Transform(ST_SetSRID(ST_GeomFromGeoJSON(%s), '' @ str_int source_srid @
       ''), '' @ str_int target_srid @ '')'' @ nl @
     spaces 12 @ '');'' @ nl @
     spaces 12"

text \<open>Lines 155 to 172: the statement and the parameters of one feature's row.\<close>

definition row_of :: "env \<Rightarrow> string \<Rightarrow> int \<Rightarrow> int \<Rightarrow> json \<Rightarrow> py_exception + string \<times> json list" where
  "row_of E table_name source_srid target_srid feature =
     and_then (py_get feature ''properties'' (JObj [])) (\<lambda>feature_props.
     and_then (py_keys feature_props) (\<lambda>names.
     and_then (py_values feature_props) (\<lambda>prop_values.
     and_then (py_get feature ''geometry'' (JObj [])) (\<lambda>g.
       Inr (insert_sql table_name (map (\<lambda>name. dq @ name @ dq) names)
              (replicate (length names) ''%s'') source_srid target_srid,
            prop_values @ [JStr (json_dumps E g)])))))"

text \<open>
  Lines 154 to 183: the loop over the features. The inner \<^verbatim>\<open>try\<close> holds the insert, the
  count and the progress line; its handler logs the error and goes on.
\<close>

fun insert_loop :: "env \<Rightarrow> string \<Rightarrow> int \<Rightarrow> int \<Rightarrow> nat \<Rightarrow> json list \<Rightarrow> nat \<Rightarrow> nat prog" where
  "insert_loop E table_name source_srid target_srid total_count [] inserted = ret inserted"
| "insert_loop E table_name source_srid target_srid total_count (feature # rest) inserted =
     bnd (lift (row_of E table_name source_srid target_srid feature)) (\<lambda>(sql, params).
     bnd (try_except
            (bnd (cursor_execute E sql params) (\<lambda>_.
             bnd (if (inserted + 1) mod 100 = 0 \<or> inserted + 1 = total_count then
                    print (''Progress: '' @ str_nat (inserted + 1) @ ''/'' @ str_nat total_count @
                           '' features inserted ('' @
                           str_int (percent E (inserted + 1) total_count) @ ''%)'')
                  else ret ()) (\<lambda>_.
             ret (inserted + 1))))
            (\<lambda>e. bnd (print (''Error inserting feature: '' @ exc_str e)) (\<lambda>_. ret inserted)))
       (\<lambda>inserted'. insert_loop E table_name source_srid target_srid total_count rest inserted'))"

definition completed_message :: "nat \<Rightarrow> nat \<Rightarrow> string" where
  "completed_message inserted total_count =
     nl @ ''Completed: '' @ str_nat inserted @ '' out of '' @ str_nat total_count @
     '' features inserted successfully.''"

text \<open>Lines 148 to 189: insert every feature, commit once, report.\<close>

definition insert_features :: "env \<Rightarrow> string \<Rightarrow> int \<Rightarrow> int \<Rightarrow> json \<Rightarrow> bool prog" where
  "insert_features E table_name source_srid target_srid data =
     bnd (lift (py_getitem data ''features'')) (\<lambda>fs.
     bnd (lift (py_len fs)) (\<lambda>total_count.
     bnd (print (nl @ ''Inserting '' @ str_nat total_count @ '' features into the database...'')) (\<lambda>_.
     bnd (lift (py_iter fs)) (\<lambda>features.
     bnd (insert_loop E table_name source_srid target_srid total_count features 0) (\<lambda>inserted.
     bnd (conn_commit E) (\<lambda>_.
     bnd (print (completed_message inserted total_count)) (\<lambda>_.
     bnd (print (''Data was automatically transformed from EPSG:'' @ str_int source_srid @
                 '' to EPSG:'' @ str_int target_srid)) (\<lambda>_.
     ret True))))))))"

definition confirm_prompt :: string where
  "confirm_prompt = nl @ ''Do you want to create the table and insert data? (yes/no): ''"

text \<open>Lines 137 to 189: write the statement to the side file, ask, create, insert.\<close>

definition confirm_and_load ::
  "env \<Rightarrow> string \<Rightarrow> string \<Rightarrow> int \<Rightarrow> int \<Rightarrow> json \<Rightarrow> bool prog" where
  "confirm_and_load E table_name create_sql source_srid target_srid data =
     bnd (write_file E (table_name @ ''_table_structure.sql'') create_sql) (\<lambda>_.
     bnd (py_input E confirm_prompt) (\<lambda>answer.
       if lower answer \<notin> set [''yes'', ''y''] then
         bnd (print ''Operation cancelled by user.'') (\<lambda>_. ret False)
       else
         bnd (cursor_execute E create_sql []) (\<lambda>_.
           insert_features E table_name source_srid target_srid data)))"

text \<open>Lines 80 to 135: everything between the inspection and the side file.\<close>

definition synthesize_table ::
  "env \<Rightarrow> string \<Rightarrow> int option \<Rightarrow> int \<Rightarrow> geojson_info \<Rightarrow> (string \<times> int) prog" where
  "synthesize_table E table_name source_srid target_srid info =
     bnd (conn_cursor E) (\<lambda>_.
     bnd (resolve_source_srid source_srid (raw_data info)) (\<lambda>src.
     bnd (lift (py_items (properties info))) (\<lambda>items.
       let sql = create_table_sql table_name (join '', '' (map column_def items))
                   (postgis_type_of (geometry_type info)) target_srid
       in
     bnd (print (nl @ ''Proposed table structure:'')) (\<lambda>_.
     bnd (print sql) (\<lambda>_.
     bnd (print (''Source SRID: '' @ str_int src @ '', Target SRID: '' @ str_int target_srid)) (\<lambda>_.
     ret (sql, src)))))))"

definition ingest_geojson_to_postgis ::
  "env \<Rightarrow> string \<Rightarrow> string \<Rightarrow> int option \<Rightarrow> int \<Rightarrow> bool prog" where
  "ingest_geojson_to_postgis E file_path table_name source_srid target_srid =
     try_except
       (let table = replace_char CHR ''-'' CHR ''_'' table_name in
        bnd (examine_geojson E file_path) (\<lambda>geojson_info.
          case geojson_info of
            None \<Rightarrow> ret False
          | Some info \<Rightarrow>
              bnd (synthesize_table E table source_srid target_srid info) (\<lambda>(sql, src).
                confirm_and_load E table sql src target_srid (raw_data info))))
       (\<lambda>e. bnd (print (''Error ingesting GeoJSON: '' @ exc_str e)) (\<lambda>_. ret False))"

subsection \<open>The top-level script\<close>

definition cursor_fetchone :: "env \<Rightarrow> json prog" where
  "cursor_fetchone E =
     (\<lambda>t. let a = db_fetchone E t in
        (case a of Inl m \<Rightarrow> Inl (Raised DatabaseError m) | Inr row \<Rightarrow> Inr row,
         t @ [DbFetchone a]))"

definition path_exists :: "env \<Rightarrow> string \<Rightarrow> bool prog" where
  "path_exists E path = (\<lambda>t. let b = fs_exists E t path in (Inr b, t @ [PathExists path b]))"

text \<open>Lines 208 to 217: the branch taken when the file exists.\<close>

definition ask_and_ingest :: "env \<Rightarrow> string \<Rightarrow> unit prog" where
  "ask_and_ingest E geojson_file =
     bnd (py_input E ''Enter the name for the PostGIS table: '') (\<lambda>table_name.
     bnd (py_input E ''Enter source SRID (press Enter for auto-detection): '') (\<lambda>s.
     bnd (lift (if s \<noteq> [] \<and> isdigit s then and_then (py_int s) (\<lambda>n. Inr (Some n))
                else Inr None)) (\<lambda>source_srid.
     bnd (py_input E ''Enter target SRID (press Enter for 4326/WGS84): '') (\<lambda>t.
     bnd (lift (if t \<noteq> [] \<and> isdigit t then py_int t else Inr 4326)) (\<lambda>target_srid.
     bnd (ingest_geojson_to_postgis E geojson_file table_name source_srid target_srid) (\<lambda>_.
     ret ()))))))"

text \<open>Lines 196 to 225. The connection is closed on line 223, the last of the \<^verbatim>\<open>try\<close> body.\<close>

definition script :: "env \<Rightarrow> unit prog" where
  "script E =
     try_except
       (bnd (\<lambda>t. call DatabaseError DbConnect (db_connect E t) t) (\<lambda>_.
        bnd (conn_cursor E) (\<lambda>_.
        bnd (cursor_execute E ''SELECT postgis_version();'' []) (\<lambda>_.
        bnd (cursor_fetchone E) (\<lambda>version.
        bnd (lift (py_getitem0 version)) (\<lambda>v0.
        bnd (print (''Connected to PostGIS version: '' @ py_str E v0)) (\<lambda>_.
        bnd (py_input E ''Enter the path to your GeoJSON file: '') (\<lambda>geojson_file.
        bnd (path_exists E geojson_file) (\<lambda>found.
        bnd (if found then ask_and_ingest E geojson_file
             else print (''File not found: '' @ geojson_file)) (\<lambda>_.
        bnd (\<lambda>t. call DatabaseError CursorClose (db_cursor_close E t) t) (\<lambda>_.
        (\<lambda>t. call DatabaseError ConnClose (db_close E t) t))))))))))))
       (\<lambda>e. print (''Error: '' @ exc_str e))"

subsection \<open>Properties of traces\<close>

text \<open>A program emits only events that satisfy \<open>P\<close>, and only extends the trace.\<close>

definition emits :: "(event \<Rightarrow> bool) \<Rightarrow> 'a prog \<Rightarrow> bool" where
  "emits P m = (\<forall>t. \<exists>ext. snd (m t) = t @ ext \<and> list_all P ext)"

text \<open>The outcome of an attempt that raised \<^verbatim>\<open>UnicodeDecodeError\<close>.\<close>

definition is_decode_error :: "py_exception + 'a \<Rightarrow> bool" where
  "is_decode_error r = (case r of Inl e \<Rightarrow> exc_class_of e = UnicodeDecodeError | Inr x \<Rightarrow> False)"

text \<open>The exception of line 28, with its message written out.\<close>

definition could_not_decode :: py_exception where
  "could_not_decode = Raised PlainException
     ''Could not decode file with any of these encodings: ['utf-8', 'latin-1', 'cp1252']''"

subsection \<open>Example inputs\<close>

text \<open>
  An environment in which everything works: the file decodes and parses to \<open>doc\<close> (its
  bytes are not spelled out), every prompt is answered with \<open>answer\<close>, and the database
  accepts every statement except an insert with a list or dict among its parameters,
  which the driver cannot adapt. The text of \<^verbatim>\<open>json.dumps\<close> is not spelled out.
\<close>

definition example_env :: "json \<Rightarrow> string \<Rightarrow> env" where
  "example_env doc answer =
     \<lparr>fs_read = (\<lambda>t p. Inr []),
      fs_write = (\<lambda>t n c. None),
      fs_exists = (\<lambda>t p. True),
      stdin = (\<lambda>t p. Some answer),
      db_connect = (\<lambda>t. None),
      db_cursor = (\<lambda>t. None),
      db_execute = (\<lambda>t sql ps. if list_ex (\<lambda>v. \<not> hashable v) ps
                                  then Some ''cannot adapt type dict'' else None),
      db_fetchone = (\<lambda>t. Inr (JArr [JStr ''3.4''])),
      db_commit = (\<lambda>t. None),
      db_cursor_close = (\<lambda>t. None),
      db_close = (\<lambda>t. None),
      utf8_decode = (\<lambda>bs. Inr (map unat bs)),
      latin1_decode = (\<lambda>bs. Inr (map unat bs)),
      cp1252_decode = (\<lambda>bs. Inr (map unat bs)),
      json_loads = (\<lambda>u. Inr doc),
      json_dumps = (\<lambda>v. ''{}''),
      set_iter = remdups,
      str_other = (\<lambda>v. ''?''),
      percent = (\<lambda>i n. int (i * 100 div n))\<rparr>"

definition typed_feature :: "string \<Rightarrow> json \<Rightarrow> json" where
  "typed_feature gtype props =
     JObj [(''type'', JStr ''Feature''),
           (''geometry'', JObj [(''type'', JStr gtype), (''coordinates'', JArr [])]),
           (''properties'', props)]"

definition collection :: "json list \<Rightarrow> json" where
  "collection fs = JObj [(''type'', JStr ''FeatureCollection''), (''features'', JArr fs)]"

definition two_polygons :: json where
  "two_polygons =
     collection [typed_feature ''Polygon'' (JObj []), typed_feature ''Polygon'' (JObj [])]"

definition polygon_and_lines :: json where
  "polygon_and_lines =
     collection [typed_feature ''Polygon'' (JObj []), typed_feature ''MultiLineString'' (JObj [])]"

text \<open>
  A feature whose geometry, when present, is an object, and whose geometry type, when
  present, can be a member of a set.
\<close>

fun plain_feature :: "json \<Rightarrow> bool" where
  "plain_feature (JObj kv) =
     (case map_of kv ''geometry'' of
        None \<Rightarrow> True
      | Some (JObj g) \<Rightarrow> (case map_of g ''type'' of None \<Rightarrow> True | Some ty \<Rightarrow> hashable ty)
      | Some v \<Rightarrow> False)"
| "plain_feature v = False"

text \<open>The geometry type a feature declares, and the geometry types of a list of features.\<close>

fun geometry_label :: "json \<Rightarrow> json option" where
  "geometry_label (JObj kv) =
     (case map_of kv ''geometry'' of Some (JObj g) \<Rightarrow> map_of g ''type'' | _ \<Rightarrow> None)"
| "geometry_label v = None"

definition geometry_labels :: "json list \<Rightarrow> json list" where
  "geometry_labels fs = List.map_filter geometry_label fs"

text \<open>
  A file that holds the five bytes of \<open>hello\<close>: it decodes under every encoding and is not
  JSON.
\<close>

definition not_json_env :: env where
  "not_json_env = (example_env JNull ''yes'')
     \<lparr>fs_read := (\<lambda>t p. Inr [0x68, 0x65, 0x6C, 0x6C, 0x6F]),
      json_loads := (\<lambda>u. Inl ''Expecting value: line 1 column 1 (char 0)'')\<rparr>"

text \<open>
  A file that holds \<open>{}\<close> in UTF-16 with a byte order mark: it is not valid UTF-8, and read
  as Latin-1 it is not JSON.
\<close>

definition utf16_env :: env where
  "utf16_env = (example_env JNull ''yes'')
     \<lparr>fs_read := (\<lambda>t p. Inr [0xFF, 0xFE, 0x7B, 0x00, 0x7D, 0x00]),
      utf8_decode := (\<lambda>bs. Inl ''invalid start byte''),
      json_loads := (\<lambda>u. Inl ''Expecting value: line 1 column 1 (char 0)'')\<rparr>"

text \<open>Decoders that reject the file under every encoding.\<close>

definition undecodable_env :: env where
  "undecodable_env = (example_env JNull ''yes'')
     \<lparr>utf8_decode := (\<lambda>bs. Inl ''invalid start byte''),
      latin1_decode := (\<lambda>bs. Inl ''undecodable''),
      cp1252_decode := (\<lambda>bs. Inl ''character maps to <undefined>'')\<rparr>"

text \<open>The CRS block \<^verbatim>\<open>{"type": "name", "properties": {"name": "urn:ogc:def:crs:EPSG::3857"}}\<close>.\<close>

definition epsg_3857_crs :: json where
  "epsg_3857_crs = JObj [(''type'', JStr ''name''),
     (''properties'', JObj [(''name'', JStr ''urn:ogc:def:crs:EPSG::3857'')])]"

subsection \<open>Predicates on events\<close>

text \<open>A statement sent to the database, or a commit.\<close>

fun is_mutation :: "event \<Rightarrow> bool" where
  "is_mutation (DbExecute s ps oc) = True"
| "is_mutation (DbCommit oc) = True"
| "is_mutation ev = False"

fun is_write :: "event \<Rightarrow> bool" where
  "is_write (WriteFile n c oc) = True"
| "is_write ev = False"

text \<open>Events that touch neither the side file, nor the console input, nor the database contents.\<close>

fun quiet :: "event \<Rightarrow> bool" where
  "quiet (WriteFile n c oc) = False"
| "quiet (Input p a) = False"
| "quiet (DbExecute s ps oc) = False"
| "quiet (DbCommit oc) = False"
| "quiet ev = True"

text \<open>Events other than writing the side file and reading the console.\<close>

fun no_io :: "event \<Rightarrow> bool" where
  "no_io (WriteFile n c oc) = False"
| "no_io (Input p a) = False"
| "no_io ev = True"

text \<open>How the two statements begin: the table name is interpolated as it is.\<close>

definition create_header :: "string \<Rightarrow> string" where
  "create_header T = nl @ spaces 8 @ ''CREATE TABLE IF NOT EXISTS '' @ T @ '' ('' @ nl"

definition insert_header :: "string \<Rightarrow> string" where
  "insert_header T = nl @ spaces 12 @ ''INSERT INTO '' @ T @ '' ('' @ nl"

text \<open>
  The side file is named after the table \<open>T\<close> and holds a \<^verbatim>\<open>CREATE TABLE\<close> for \<open>T\<close>; every
  statement executed is a \<^verbatim>\<open>CREATE TABLE\<close> or an \<^verbatim>\<open>INSERT\<close> for \<open>T\<close>.
\<close>

fun names_table :: "string \<Rightarrow> event \<Rightarrow> bool" where
  "names_table T (WriteFile n c oc) = (n = T @ ''_table_structure.sql'' \<and> prefix (create_header T) c)"
| "names_table T (DbExecute sql ps oc) = (prefix (create_header T) sql \<or> prefix (insert_header T) sql)"
| "names_table T ev = True"

text \<open>
  What lines 137 to 189 may add to the trace: the write of the side file comes first, the
  prompt second, and a statement is executed only after an affirmative answer.
\<close>

definition gated :: "string \<Rightarrow> string \<Rightarrow> (py_exception + bool) \<Rightarrow> event list \<Rightarrow> bool" where
  "gated fname sql r B \<longleftrightarrow>
     (\<exists>m T. B = WriteFile fname sql (Some m) # T \<and> list_all quiet T) \<or>
     (\<exists>T. B = WriteFile fname sql None # Input confirm_prompt None # T \<and> list_all quiet T) \<or>
     (\<exists>a T. B = WriteFile fname sql None # Input confirm_prompt (Some a) # T \<and>
        lower a \<notin> {''yes'', ''y''} \<and> list_all quiet T \<and> r = Inr False) \<or>
     (\<exists>a oc C. B = WriteFile fname sql None # Input confirm_prompt (Some a) # DbExecute sql [] oc # C \<and>
        lower a \<in> {''yes'', ''y''} \<and> list_all no_io C)"

text \<open>Three point features; the second has a nested object where a scalar is expected.\<close>

definition three_points :: json where
  "three_points =
     collection [typed_feature ''Point'' (JObj [(''label'', JStr ''A'')]),
                 typed_feature ''Point'' (JObj [(''label'', JObj [(''nested'', JInt 1)])]),
                 typed_feature ''Point'' (JObj [(''label'', JStr ''C'')])]"

text \<open>Predicates and projections for the insert loop.\<close>

fun is_commit :: "event \<Rightarrow> bool" where
  "is_commit (DbCommit oc) = True"
| "is_commit ev = False"

text \<open>An executed statement that did not raise.\<close>

fun succeeded :: "event \<Rightarrow> bool" where
  "succeeded (DbExecute sql ps None) = True"
| "succeeded ev = False"

text \<open>The statements sent to the database, with their parameters, in order.\<close>

fun executed :: "event list \<Rightarrow> (string \<times> json list) list" where
  "executed [] = []"
| "executed (DbExecute sql ps oc # evs) = (sql, ps) # executed evs"
| "executed (ev # evs) = executed evs"

text \<open>Every statement that raised is followed at once by the line that logs its error.\<close>

fun failures_logged :: "event list \<Rightarrow> bool" where
  "failures_logged [] = True"
| "failures_logged (DbExecute sql ps (Some m) # evs) =
     (case evs of
        Print line # rest \<Rightarrow> line = ''Error inserting feature: '' @ m \<and> failures_logged rest
      | _ \<Rightarrow> False)"
| "failures_logged (ev # evs) = failures_logged evs"

text \<open>
  A Feature of the data model: an object whose \<^verbatim>\<open>properties\<close> member, when present, is a
  mapping.
\<close>

fun is_row_feature :: "json \<Rightarrow> bool" where
  "is_row_feature (JObj kv) =
     (case map_of kv ''properties'' of None \<Rightarrow> True | Some (JObj ps) \<Rightarrow> True | Some v \<Rightarrow> False)"
| "is_row_feature v = False"


text \<open>A database without the PostGIS extension: the version query fails.\<close>

definition no_postgis_env :: env where
  "no_postgis_env = (example_env JNull ''yes'')
     \<lparr>db_execute := (\<lambda>t sql ps. Some ''function postgis_version() does not exist'')\<rparr>"

section \<open>Theorems\<close>

lemmas monad_defs = bnd_def emit_def try_except_def ret_def raise_def lift_def print_def
  call_def and_then_def

lemmas examine_defs = examine_geojson_def encoding_loop.simps encodings_to_try_def load_json_def
  decode_def decoded_def inspect_features_def add_geometry_type_def resolve_geometry_type_def
  py_str_def nl_def sq_def dq_def str_nat.simps

lemmas example_defs = example_env_def typed_feature_def collection_def

lemmas int_defs = py_int_def strip_def is_space_def is_ascii_digit_def digit_val_def

subsection \<open>Geometry type resolution\<close>

text \<open>
  C1 (as the claim states it, refuted). A collection of two Polygon features resolves to
  Polygon, not to MultiPolygon; a Polygon together with a MultiLineString resolves to
  MultiLineString, so the polygon family does not take precedence over the line family.
\<close>

theorem all_polygon_resolves_to_polygon:
  "fst (examine_geojson (example_env two_polygons ''yes'') ''parcels.geojson'' []) =
     Inr (Some \<lparr>feature_count = 2, geometry_type = JStr ''Polygon'',
                properties = JObj [], raw_data = two_polygons\<rparr>) \<and>
   fst (examine_geojson (example_env polygon_and_lines ''yes'') ''mixed.geojson'' []) =
     Inr (Some \<lparr>feature_count = 2, geometry_type = JStr ''MultiLineString'',
                properties = JObj [], raw_data = polygon_and_lines\<rparr>)"
  by (simp add: two_polygons_def polygon_and_lines_def example_defs examine_defs monad_defs)

lemma add_geometry_type_plain:
  "plain_feature f \<Longrightarrow>
     add_geometry_type f acc =
       Inr (acc @ (case geometry_label f of None \<Rightarrow> [] | Some ty \<Rightarrow> [ty]))"
  by (cases f)
    (auto simp: add_geometry_type_def and_then_def split: option.splits json.splits)

lemma collect_geometry_types_plain:
  "list_all plain_feature fs \<Longrightarrow>
     collect_geometry_types fs acc = Inr (acc @ geometry_labels fs)"
proof (induction fs arbitrary: acc)
  case Nil
  show ?case by (simp add: geometry_labels_def List.map_filter_simps)
next
  case (Cons f fs)
  then show ?case
    by (auto simp: add_geometry_type_plain and_then_def geometry_labels_def
          List.map_filter_simps split: option.splits)
qed

lemma resolve_multi:
  "(JStr ''MultiPolygon'' \<in> set gts \<longrightarrow>
      resolve_geometry_type E gts = Inr (JStr ''MultiPolygon'')) \<and>
   (JStr ''MultiPolygon'' \<notin> set gts \<and> JStr ''MultiLineString'' \<in> set gts \<longrightarrow>
      resolve_geometry_type E gts = Inr (JStr ''MultiLineString'')) \<and>
   (JStr ''MultiPolygon'' \<notin> set gts \<and> JStr ''MultiLineString'' \<notin> set gts \<and>
    JStr ''MultiPoint'' \<in> set gts \<longrightarrow>
      resolve_geometry_type E gts = Inr (JStr ''MultiPoint''))"
  by (simp add: resolve_geometry_type_def)

lemma resolve_single:
  assumes "JStr ''MultiPolygon'' \<notin> set gts" "JStr ''MultiLineString'' \<notin> set gts"
    "JStr ''MultiPoint'' \<notin> set gts" "set gts = {ty}" "set (set_iter E gts) = set gts"
  shows "resolve_geometry_type E gts = Inr ty"
proof -
  from assms(4) have ne: "gts \<noteq> []" by auto
  from assms(4,5) obtain x xs where it: "set_iter E gts = x # xs"
    by (cases "set_iter E gts") auto
  with assms(4,5) have "x = ty" by auto
  with assms(1-3) ne it show ?thesis by (simp add: resolve_geometry_type_def)
qed

text \<open>
  C1 (amended). For features whose geometry, when present, is an object: what decides is
  which Multi types are among the features' geometry types. If some feature is a
  MultiPolygon the resolved type is MultiPolygon; otherwise, if some feature is a
  MultiLineString, it is MultiLineString; otherwise, if some feature is a MultiPoint, it
  is MultiPoint; otherwise, when all features have one and the same type, that type is
  kept unchanged (the iterator of a set yields its elements).
\<close>

theorem multi_type_resolution:
  assumes "list_all plain_feature fs"
  shows "(JStr ''MultiPolygon'' \<in> set (geometry_labels fs) \<longrightarrow>
      and_then (collect_geometry_types fs []) (resolve_geometry_type E) = Inr (JStr ''MultiPolygon'')) \<and>
   (JStr ''MultiPolygon'' \<notin> set (geometry_labels fs) \<and>
    JStr ''MultiLineString'' \<in> set (geometry_labels fs) \<longrightarrow>
      and_then (collect_geometry_types fs []) (resolve_geometry_type E) = Inr (JStr ''MultiLineString'')) \<and>
   (JStr ''MultiPolygon'' \<notin> set (geometry_labels fs) \<and>
    JStr ''MultiLineString'' \<notin> set (geometry_labels fs) \<and>
    JStr ''MultiPoint'' \<in> set (geometry_labels fs) \<longrightarrow>
      and_then (collect_geometry_types fs []) (resolve_geometry_type E) = Inr (JStr ''MultiPoint'')) \<and>
   (JStr ''MultiPolygon'' \<notin> set (geometry_labels fs) \<and>
    JStr ''MultiLineString'' \<notin> set (geometry_labels fs) \<and>
    JStr ''MultiPoint'' \<notin> set (geometry_labels fs) \<and>
    set (geometry_labels fs) = {ty} \<and>
    set (set_iter E (geometry_labels fs)) = set (geometry_labels fs) \<longrightarrow>
      and_then (collect_geometry_types fs []) (resolve_geometry_type E) = Inr ty)"
proof -
  have eq: "and_then (collect_geometry_types fs []) (resolve_geometry_type E) =
      resolve_geometry_type E (geometry_labels fs)"
    using collect_geometry_types_plain [OF assms, of "[]"] by (simp add: and_then_def)
  show ?thesis
    unfolding eq
    using resolve_multi [of "geometry_labels fs" E] resolve_single [of "geometry_labels fs" ty E]
    by blast
qed

text \<open>C1 (amended), at four collections: one for each case of the theorem.\<close>

theorem multi_type_resolution_witness:
  "and_then (collect_geometry_types
       [typed_feature ''Polygon'' (JObj []), typed_feature ''MultiPolygon'' (JObj [])] [])
     (resolve_geometry_type (example_env JNull ''yes'')) = Inr (JStr ''MultiPolygon'') \<and>
   and_then (collect_geometry_types
       [typed_feature ''Polygon'' (JObj []), typed_feature ''MultiLineString'' (JObj [])] [])
     (resolve_geometry_type (example_env JNull ''yes'')) = Inr (JStr ''MultiLineString'') \<and>
   and_then (collect_geometry_types
       [typed_feature ''Point'' (JObj []), typed_feature ''MultiPoint'' (JObj [])] [])
     (resolve_geometry_type (example_env JNull ''yes'')) = Inr (JStr ''MultiPoint'') \<and>
   and_then (collect_geometry_types
       [typed_feature ''Polygon'' (JObj []), typed_feature ''Polygon'' (JObj [])] [])
     (resolve_geometry_type (example_env JNull ''yes'')) = Inr (JStr ''Polygon'')"
proof -
  let ?E = "example_env JNull ''yes''"
  let ?a = "[typed_feature ''Polygon'' (JObj []), typed_feature ''MultiPolygon'' (JObj [])]"
  let ?b = "[typed_feature ''Polygon'' (JObj []), typed_feature ''MultiLineString'' (JObj [])]"
  let ?c = "[typed_feature ''Point'' (JObj []), typed_feature ''MultiPoint'' (JObj [])]"
  let ?d = "[typed_feature ''Polygon'' (JObj []), typed_feature ''Polygon'' (JObj [])]"
  have p: "list_all plain_feature ?a" "list_all plain_feature ?b" "list_all plain_feature ?c"
    "list_all plain_feature ?d"
    by (simp_all add: typed_feature_def)
  have l: "geometry_labels ?a = [JStr ''Polygon'', JStr ''MultiPolygon'']"
    "geometry_labels ?b = [JStr ''Polygon'', JStr ''MultiLineString'']"
    "geometry_labels ?c = [JStr ''Point'', JStr ''MultiPoint'']"
    "geometry_labels ?d = [JStr ''Polygon'', JStr ''Polygon'']"
    by (simp_all add: typed_feature_def geometry_labels_def List.map_filter_simps)
  have i: "set (set_iter ?E (geometry_labels ?d)) = set (geometry_labels ?d)"
    by (simp add: l example_env_def)
  from multi_type_resolution [OF p(1), where E = ?E] multi_type_resolution [OF p(2), where E = ?E]
    multi_type_resolution [OF p(3), where E = ?E] multi_type_resolution [OF p(4), where ty = "JStr ''Polygon''" and E = ?E] i
  show ?thesis
    by (simp add: l)
qed

subsection \<open>Column types\<close>

text \<open>
  C2 (the code at the claim's own example). The test for \<^verbatim>\<open>int\<close> comes first and a
  boolean passes it, so the property \<open>a\<close> with value \<^verbatim>\<open>true\<close> gets an INTEGER column;
  the BOOLEAN branch is never taken.
\<close>

theorem boolean_property_typed_integer:
  "map column_def [(''a'', JBool True), (''b'', JInt 3), (''c'', JFloat 1.5), (''d'', JStr ''x'')] =
     [dq @ ''a'' @ dq @ '' INTEGER'', dq @ ''b'' @ dq @ '' INTEGER'',
      dq @ ''c'' @ dq @ '' NUMERIC'', dq @ ''d'' @ dq @ '' TEXT''] \<and>
   col_type (JBool b) = ''INTEGER''"
  by (simp add: column_def_def col_type_def)

subsection \<open>Source SRID\<close>

lemma detect_3857:
  "map_of kv ''crs'' = Some epsg_3857_crs \<Longrightarrow> detect_crs (JObj kv) = Inr (Some 3857)"
  by (simp add: detect_crs_def epsg_3857_crs_def and_then_def int_defs)

lemma detect_none: "map_of kv ''crs'' = None \<Longrightarrow> detect_crs (JObj kv) = Inr None"
  by (simp add: detect_crs_def and_then_def)

lemma str_3857: "str_int 3857 = ''3857''"
  by (simp add: str_int_def str_nat.simps)

lemma str_4326: "str_int 4326 = ''4326''"
  by (simp add: str_int_def str_nat.simps)

text \<open>
  C8. With no explicit source SRID, a document whose CRS block is the one named in the
  claim gives 3857, and a document with no CRS block gives 4326 and says so.
\<close>

theorem crs_detection:
  "(map_of kv ''crs'' = Some epsg_3857_crs \<longrightarrow>
      resolve_source_srid None (JObj kv) t =
        (Inr 3857, t @ [Print ''Detected source SRID: 3857''])) \<and>
   (map_of kv ''crs'' = None \<longrightarrow>
      resolve_source_srid None (JObj kv) t =
        (Inr 4326, t @ [Print ''No CRS specified in GeoJSON. Assuming EPSG:4326'']))"
  by (simp add: resolve_source_srid_def detect_3857 detect_none monad_defs str_3857 str_4326)

text \<open>C8, at a document with the CRS block and at one without.\<close>

theorem crs_detection_witness:
  "resolve_source_srid None
     (JObj [(''type'', JStr ''FeatureCollection''), (''crs'', epsg_3857_crs),
            (''features'', JArr [])]) [] =
     (Inr 3857, [Print ''Detected source SRID: 3857'']) \<and>
   resolve_source_srid None
     (JObj [(''type'', JStr ''FeatureCollection''), (''features'', JArr [])]) [] =
     (Inr 4326, [Print ''No CRS specified in GeoJSON. Assuming EPSG:4326''])"
  using crs_detection [of "[(''type'', JStr ''FeatureCollection''), (''crs'', epsg_3857_crs),
                            (''features'', JArr [])]" "[]"]
    crs_detection [of "[(''type'', JStr ''FeatureCollection''), (''features'', JArr [])]" "[]"]
  by simp

subsection \<open>The encoding loop\<close>

lemma repr_encodings:
  "Raised PlainException (''Could not decode file with any of these encodings: '' @
     repr_str_list encodings_to_try) = could_not_decode"
  by (simp add: could_not_decode_def repr_str_list_def encodings_to_try_def sq_def)

lemma encoding_loop_Cons:
  "encoding_loop E p (enc # rest) =
     try_except (load_json E p enc)
       (\<lambda>e. if exc_class_of e = UnicodeDecodeError then
               (if enc = ''cp1252'' then raise could_not_decode else encoding_loop E p rest)
             else raise e)"
  unfolding encoding_loop.simps repr_encodings by (simp add: encodings_to_try_def)

text \<open>
  C4 (as the claim states it, refuted). A file that is not JSON fails to parse under each
  of the three encodings, yet the loop stops after the first attempt with the parser's
  error, and the error reported names no encoding. A UTF-16 file fails to decode as
  UTF-8, decodes as Latin-1 to text that is not JSON, and the loop stops there, at an
  encoding under which the file does not parse.
\<close>

theorem parse_error_stops_encoding_loop:
  "fst (load_json not_json_env ''notes.txt'' ''utf-8'' []) =
     Inl (Raised JSONDecodeError ''Expecting value: line 1 column 1 (char 0)'') \<and>
   fst (load_json not_json_env ''notes.txt'' ''latin-1'' []) =
     Inl (Raised JSONDecodeError ''Expecting value: line 1 column 1 (char 0)'') \<and>
   fst (load_json not_json_env ''notes.txt'' ''cp1252'' []) =
     Inl (Raised JSONDecodeError ''Expecting value: line 1 column 1 (char 0)'') \<and>
   encoding_loop not_json_env ''notes.txt'' encodings_to_try [] =
     (Inl (Raised JSONDecodeError ''Expecting value: line 1 column 1 (char 0)''),
      [OpenRead ''notes.txt'' ''utf-8'']) \<and>
   examine_geojson not_json_env ''notes.txt'' [] =
     (Inr None, [OpenRead ''notes.txt'' ''utf-8'',
                 Print ''Error examining GeoJSON: Expecting value: line 1 column 1 (char 0)'']) \<and>
   encoding_loop utf16_env ''survey.geojson'' encodings_to_try [] =
     (Inl (Raised JSONDecodeError ''Expecting value: line 1 column 1 (char 0)''),
      [OpenRead ''survey.geojson'' ''utf-8'', OpenRead ''survey.geojson'' ''latin-1''])"
  by (simp add: not_json_env_def utf16_env_def example_defs examine_defs monad_defs)

text \<open>
  C4 (amended). The encodings are tried in the order utf-8, latin-1, cp1252. The loop
  goes on to the next encoding only when an attempt raises a decoding error; it ends at
  the first attempt that does not, with that attempt's document or with that attempt's
  own error. When all three attempts raise a decoding error, it fails with the error that
  names the three encodings.
\<close>

theorem encoding_fallback:
  assumes "load_json E p ''utf-8'' t = (r1, t1)"
    and "load_json E p ''latin-1'' t1 = (r2, t2)"
    and "load_json E p ''cp1252'' t2 = (r3, t3)"
  shows "encoding_loop E p encodings_to_try t =
     (if \<not> is_decode_error r1 then (r1, t1)
      else if \<not> is_decode_error r2 then (r2, t2)
      else if \<not> is_decode_error r3 then (r3, t3)
      else (Inl could_not_decode, t3))"
  using assms unfolding encodings_to_try_def encoding_loop_Cons
  by (auto simp: try_except_def raise_def is_decode_error_def split: sum.splits)

text \<open>C4 (amended), with decoders that reject the file under all three encodings.\<close>

theorem encoding_fallback_witness:
  "encoding_loop undecodable_env ''data.geojson'' encodings_to_try [] =
     (Inl could_not_decode,
      [OpenRead ''data.geojson'' ''utf-8'', OpenRead ''data.geojson'' ''latin-1'',
       OpenRead ''data.geojson'' ''cp1252''])"
proof -
  have 1: "load_json undecodable_env ''data.geojson'' ''utf-8'' [] =
      (Inl (Raised UnicodeDecodeError ''invalid start byte''), [OpenRead ''data.geojson'' ''utf-8''])"
    by (simp add: undecodable_env_def example_defs load_json_def decode_def decoded_def monad_defs)
  have 2: "load_json undecodable_env ''data.geojson'' ''latin-1'' [OpenRead ''data.geojson'' ''utf-8''] =
      (Inl (Raised UnicodeDecodeError ''undecodable''),
       [OpenRead ''data.geojson'' ''utf-8'', OpenRead ''data.geojson'' ''latin-1''])"
    by (simp add: undecodable_env_def example_defs load_json_def decode_def decoded_def monad_defs)
  have 3: "load_json undecodable_env ''data.geojson'' ''cp1252''
        [OpenRead ''data.geojson'' ''utf-8'', OpenRead ''data.geojson'' ''latin-1''] =
      (Inl (Raised UnicodeDecodeError ''character maps to <undefined>''),
       [OpenRead ''data.geojson'' ''utf-8'', OpenRead ''data.geojson'' ''latin-1'',
        OpenRead ''data.geojson'' ''cp1252''])"
    by (simp add: undecodable_env_def example_defs load_json_def decode_def decoded_def monad_defs)
  show ?thesis
    using encoding_fallback [OF 1 2 3] by (simp add: is_decode_error_def)
qed

lemma load_json_result:
  "\<exists>r. load_json E p enc t = (r, t @ [OpenRead p enc]) \<and> (\<forall>m. r \<noteq> Inl (Raised PlainException m))"
  by (auto simp: load_json_def monad_defs decode_def decoded_def split: sum.splits)

lemma load_json_latin1:
  assumes "\<forall>bs. \<exists>u. latin1_decode E bs = Inr u"
  shows "\<not> is_decode_error (fst (load_json E p ''latin-1'' t))"
proof (cases "fs_read E (t @ [OpenRead p ''latin-1'']) p")
  case (Inl m)
  then show ?thesis
    by (simp add: load_json_def monad_defs is_decode_error_def)
next
  case (Inr bs)
  from assms obtain u where "latin1_decode E bs = Inr u"
    by blast
  then have "decode E ''latin-1'' bs = Inr u"
    by (simp add: decode_def decoded_def)
  with Inr show ?thesis
    by (simp add: load_json_def monad_defs is_decode_error_def split: sum.splits)
qed

lemma encoding_loop_two_attempts:
  assumes "load_json E p ''utf-8'' t = (r1, t1)"
    and "load_json E p ''latin-1'' t1 = (r2, t2)"
    and "\<not> is_decode_error r2"
  shows "encoding_loop E p encodings_to_try t = (if \<not> is_decode_error r1 then (r1, t1) else (r2, t2))"
  using assms unfolding encodings_to_try_def encoding_loop_Cons
  by (auto simp: try_except_def raise_def is_decode_error_def split: sum.splits)

text \<open>
  C9. Latin-1 decodes every byte sequence. Then the loop ends at the first or at the
  second attempt, its outcome is neither a decoding error nor the error of line 28, and
  cp1252 is never tried.
\<close>

theorem all_encodings_failed_unreachable:
  assumes "\<forall>bs. \<exists>u. latin1_decode E bs = Inr u"
  shows "\<exists>r ext. encoding_loop E p encodings_to_try t = (r, t @ ext) \<and>
           (\<forall>m. r \<noteq> Inl (Raised PlainException m)) \<and> \<not> is_decode_error r \<and>
           (ext = [OpenRead p ''utf-8''] \<or> ext = [OpenRead p ''utf-8'', OpenRead p ''latin-1''])"
proof -
  obtain r1 where 1: "load_json E p ''utf-8'' t = (r1, t @ [OpenRead p ''utf-8''])"
    "\<forall>m. r1 \<noteq> Inl (Raised PlainException m)"
    using load_json_result by blast
  obtain r2 where 2: "load_json E p ''latin-1'' (t @ [OpenRead p ''utf-8'']) =
      (r2, (t @ [OpenRead p ''utf-8'']) @ [OpenRead p ''latin-1''])"
    "\<forall>m. r2 \<noteq> Inl (Raised PlainException m)"
    using load_json_result by blast
  from load_json_latin1 [OF assms, of p "t @ [OpenRead p ''utf-8'']"] 2
  have nd: "\<not> is_decode_error r2" by simp
  show ?thesis
    using encoding_loop_two_attempts [OF 1(1) 2(1) nd] 1(2) 2(2) nd by auto
qed

text \<open>C9, with the Latin-1 decoder that maps each byte to its code point.\<close>

theorem all_encodings_failed_unreachable_witness:
  "(\<forall>bs. \<exists>u. latin1_decode (example_env JNull ''yes'') bs = Inr u) \<and>
   (\<exists>r ext. encoding_loop (example_env JNull ''yes'') ''data.geojson'' encodings_to_try [] = (r, ext) \<and>
       (\<forall>m. r \<noteq> Inl (Raised PlainException m)) \<and> \<not> is_decode_error r \<and>
       (ext = [OpenRead ''data.geojson'' ''utf-8''] \<or>
        ext = [OpenRead ''data.geojson'' ''utf-8'', OpenRead ''data.geojson'' ''latin-1'']))"
proof -
  have h: "\<forall>bs. \<exists>u. latin1_decode (example_env JNull ''yes'') bs = Inr u"
    by (simp add: example_env_def)
  show ?thesis
    using h all_encodings_failed_unreachable [OF h, of "''data.geojson''" "[]"] by simp
qed

subsection \<open>What a program may emit\<close>


lemma emits_ret: "emits P (ret x)"
  by (simp add: emits_def ret_def)

lemma emits_raise: "emits P (raise e)"
  by (simp add: emits_def raise_def)

lemma emits_lift: "emits P (lift r)"
  by (simp add: emits_def lift_def)

lemma emits_pure: "emits P (\<lambda>t. (g t, t))"
  by (simp add: emits_def)

lemma emits_emit: "P ev \<Longrightarrow> emits P (emit ev)"
  by (simp add: emits_def emit_def)

lemma emits_print: "P (Print s) \<Longrightarrow> emits P (print s)"
  by (simp add: print_def emits_emit)

lemma emits_py_input: "(\<And>a. P (Input p a)) \<Longrightarrow> emits P (py_input E p)"
  by (simp add: emits_def py_input_def Let_def)

lemma emits_cursor_execute: "(\<And>oc. P (DbExecute sql ps oc)) \<Longrightarrow> emits P (cursor_execute E sql ps)"
  by (simp add: emits_def cursor_execute_def call_def)

lemma emits_conn_commit: "(\<And>oc. P (DbCommit oc)) \<Longrightarrow> emits P (conn_commit E)"
  by (simp add: emits_def conn_commit_def call_def)

lemma emits_conn_cursor: "(\<And>oc. P (DbCursor oc)) \<Longrightarrow> emits P (conn_cursor E)"
  by (simp add: emits_def conn_cursor_def call_def)

lemma emits_write_file: "(\<And>oc. P (WriteFile n c oc)) \<Longrightarrow> emits P (write_file E n c)"
  by (simp add: emits_def write_file_def call_def)

lemma emits_bnd_result:
  assumes "emits P m" and "\<And>x t. fst (m t) = Inr x \<Longrightarrow> emits P (f x)"
  shows "emits P (bnd m f)"
  unfolding emits_def
proof
  fix t
  from assms(1) obtain ext1 where 1: "snd (m t) = t @ ext1" "list_all P ext1"
    by (auto simp: emits_def)
  show "\<exists>ext. snd (bnd m f t) = t @ ext \<and> list_all P ext"
  proof (cases "fst (m t)")
    case (Inl e)
    with 1 have "bnd m f t = (Inl e, t @ ext1)"
      by (cases "m t") (simp add: bnd_def)
    with 1 show ?thesis by simp
  next
    case (Inr x)
    from assms(2) [OF Inr]
    have "\<exists>ext. snd (f x (t @ ext1)) = (t @ ext1) @ ext \<and> list_all P ext"
      unfolding emits_def by blast
    then obtain ext2 where
      2: "snd (f x (t @ ext1)) = (t @ ext1) @ ext2" "list_all P ext2"
      by blast
    from Inr 1 have "bnd m f t = f x (t @ ext1)"
      by (cases "m t") (simp add: bnd_def)
    with 1 2 show ?thesis
      by (intro exI [of _ "ext1 @ ext2"]) simp
  qed
qed

lemma emits_bnd: "emits P m \<Longrightarrow> (\<And>x. emits P (f x)) \<Longrightarrow> emits P (bnd m f)"
  by (rule emits_bnd_result)

lemma emits_try_except:
  assumes "emits P m" and "\<And>e. emits P (h e)"
  shows "emits P (try_except m h)"
  unfolding emits_def
proof
  fix t
  from assms(1) obtain ext1 where 1: "snd (m t) = t @ ext1" "list_all P ext1"
    by (auto simp: emits_def)
  show "\<exists>ext. snd (try_except m h t) = t @ ext \<and> list_all P ext"
  proof (cases "fst (m t)")
    case (Inr x)
    with 1 have "try_except m h t = (Inr x, t @ ext1)"
      by (cases "m t") (simp add: try_except_def)
    with 1 show ?thesis by simp
  next
    case (Inl e)
    from assms(2) [of e]
    have "\<exists>ext. snd (h e (t @ ext1)) = (t @ ext1) @ ext \<and> list_all P ext"
      unfolding emits_def by blast
    then obtain ext2 where
      2: "snd (h e (t @ ext1)) = (t @ ext1) @ ext2" "list_all P ext2"
      by blast
    from Inl 1 have "try_except m h t = h e (t @ ext1)"
      by (cases "m t") (simp add: try_except_def)
    with 1 2 show ?thesis
      by (intro exI [of _ "ext1 @ ext2"]) simp
  qed
qed

lemma emits_case_prod: "(\<And>a b. emits P (f a b)) \<Longrightarrow> emits P (case_prod f x)"
  by (cases x) simp

lemma emits_case_option:
  "emits P a \<Longrightarrow> (\<And>x. emits P (f x)) \<Longrightarrow> emits P (case v of None \<Rightarrow> a | Some x \<Rightarrow> f x)"
  by (cases v) simp_all

lemma emits_if: "emits P a \<Longrightarrow> emits P b \<Longrightarrow> emits P (if c then a else b)"
  by simp

lemmas emits_intros = emits_ret emits_raise emits_lift emits_pure emits_emit emits_print
  emits_py_input emits_cursor_execute emits_conn_commit emits_conn_cursor emits_write_file
  emits_bnd emits_try_except emits_case_prod emits_case_option emits_if

lemma emits_load_json: "(\<And>a b. P (OpenRead a b)) \<Longrightarrow> emits P (load_json E p enc)"
  unfolding load_json_def by (intro emits_intros)

lemma emits_encoding_loop:
  assumes "\<And>a b. P (OpenRead a b)"
  shows "emits P (encoding_loop E p encs)"
proof (induction encs)
  case Nil
  show ?case by (simp add: emits_raise)
next
  case (Cons enc encs)
  show ?case
    unfolding encoding_loop.simps
    by (intro emits_intros emits_load_json assms Cons.IH)
qed

lemma emits_examine:
  assumes "\<And>s. P (Print s)" and "\<And>v. P (PPrint v)" and "\<And>a b. P (OpenRead a b)"
  shows "emits P (examine_geojson E p)"
  unfolding examine_geojson_def
  by (intro emits_intros emits_encoding_loop assms)

lemma emits_resolve_source_srid:
  assumes "\<And>s. P (Print s)"
  shows "emits P (resolve_source_srid s data)"
  unfolding resolve_source_srid_def
  by (intro emits_intros assms)

lemma emits_synthesize_table:
  assumes "\<And>s. P (Print s)" and "\<And>oc. P (DbCursor oc)"
  shows "emits P (synthesize_table E tn s g info)"
  unfolding synthesize_table_def Let_def
  by (intro emits_intros emits_resolve_source_srid assms)

lemma row_of_sql:
  "row_of E tn s g f = Inr (sql, ps) \<Longrightarrow> prefix (insert_header tn) sql"
  by (auto simp: row_of_def and_then_def insert_sql_def insert_header_def split: sum.splits)

lemma emits_insert_loop:
  assumes "\<And>s. P (Print s)" and "\<And>sql ps oc. prefix (insert_header tn) sql \<Longrightarrow> P (DbExecute sql ps oc)"
  shows "emits P (insert_loop E tn s g n fs k)"
proof (induction fs arbitrary: k)
  case Nil
  show ?case by (simp add: emits_ret)
next
  case (Cons f fs)
  show ?case
    unfolding insert_loop.simps
  proof (rule emits_bnd_result [OF emits_lift])
    fix x t
    assume "fst (lift (row_of E tn s g f) t) = Inr x"
    then have r: "row_of E tn s g f = Inr x" by (simp add: lift_def)
    obtain sql ps where x: "x = (sql, ps)" by (cases x)
    with r have "prefix (insert_header tn) sql" by (auto dest: row_of_sql)
    then have "\<And>oc. P (DbExecute sql ps oc)" by (rule assms(2))
    then show "emits P (case x of (sql, params) \<Rightarrow>
        bnd (try_except
            (bnd (cursor_execute E sql params) (\<lambda>_.
             bnd (if (k + 1) mod 100 = 0 \<or> k + 1 = n then
                    print (''Progress: '' @ str_nat (k + 1) @ ''/'' @ str_nat n @
                           '' features inserted ('' @
                           str_int (percent E (k + 1) n) @ ''%)'')
                  else ret ()) (\<lambda>_.
             ret (k + 1))))
            (\<lambda>e. bnd (print (''Error inserting feature: '' @ exc_str e)) (\<lambda>_. ret k)))
          (\<lambda>inserted'. insert_loop E tn s g n fs inserted'))"
      unfolding x prod.case
      by (intro emits_intros assms(1) Cons.IH)
  qed
qed

lemma emits_insert_features:
  assumes "\<And>s. P (Print s)" and "\<And>oc. P (DbCommit oc)"
    and "\<And>sql ps oc. prefix (insert_header tn) sql \<Longrightarrow> P (DbExecute sql ps oc)"
  shows "emits P (insert_features E tn s g data)"
  unfolding insert_features_def
  by (intro emits_intros emits_insert_loop assms)

lemma emits_confirm_and_load:
  assumes "\<And>s. P (Print s)" and "\<And>oc. P (DbCommit oc)" and "\<And>p a. P (Input p a)"
    and "\<And>oc. P (WriteFile (tn @ ''_table_structure.sql'') sql oc)"
    and "\<And>oc. P (DbExecute sql [] oc)"
    and "\<And>sql ps oc. prefix (insert_header tn) sql \<Longrightarrow> P (DbExecute sql ps oc)"
  shows "emits P (confirm_and_load E tn sql s g data)"
  unfolding confirm_and_load_def
  by (intro emits_intros emits_insert_features assms)

lemma synthesize_table_sql:
  assumes "fst (synthesize_table E tn s g info t) = Inr x"
  shows "prefix (create_header tn) (fst x)"
  using assms
  by (auto simp: synthesize_table_def Let_def bnd_def conn_cursor_def call_def lift_def print_def
        emit_def ret_def create_table_sql_def create_header_def
        split: prod.splits sum.splits option.splits)


subsection \<open>The table name\<close>

lemma emits_ingest_names:
  "emits (names_table (replace_char CHR ''-'' CHR ''_'' tn)) (ingest_geojson_to_postgis E p tn s g)"
proof -
  let ?T = "replace_char CHR ''-'' CHR ''_'' tn"
  let ?P = "names_table ?T"
  have inner: "emits ?P (bnd (synthesize_table E ?T s g info) (\<lambda>(sql, src).
                 confirm_and_load E ?T sql src g (raw_data info)))" for info
  proof (rule emits_bnd_result)
    show "emits ?P (synthesize_table E ?T s g info)"
      by (rule emits_synthesize_table) simp_all
  next
    fix x t
    assume "fst (synthesize_table E ?T s g info t) = Inr x"
    then have "prefix (create_header ?T) (fst x)"
      by (rule synthesize_table_sql)
    then show "emits ?P (case x of (sql, src) \<Rightarrow> confirm_and_load E ?T sql src g (raw_data info))"
      by (cases x) (auto intro!: emits_confirm_and_load)
  qed
  show ?thesis
    unfolding ingest_geojson_to_postgis_def Let_def
    by (intro emits_try_except emits_bnd emits_case_option emits_ret emits_examine emits_print inner)
      simp_all
qed

text \<open>
  C10. The only change to the table name is that every \<open>-\<close> becomes \<open>_\<close>: the length and
  every other character stay. The name so obtained is what the side file is named after
  and what every \<^verbatim>\<open>CREATE TABLE\<close> and \<^verbatim>\<open>INSERT\<close> statement of the run names, unquoted.
\<close>

theorem table_name_sanitization:
  "length (replace_char CHR ''-'' CHR ''_'' tn) = length tn \<and>
   (\<forall>i < length tn. replace_char CHR ''-'' CHR ''_'' tn ! i =
      (if tn ! i = CHR ''-'' then CHR ''_'' else tn ! i)) \<and>
   emits (names_table (replace_char CHR ''-'' CHR ''_'' tn)) (ingest_geojson_to_postgis E p tn s g)"
  using emits_ingest_names by (simp add: replace_char_def)

subsection \<open>The shape of a run of \<^verbatim>\<open>ingest_geojson_to_postgis\<close>\<close>

lemma quiet_not_mutation: "quiet ev \<Longrightarrow> \<not> is_mutation ev"
  by (cases ev) auto

lemma quiet_not_write: "quiet ev \<Longrightarrow> \<not> is_write ev"
  by (cases ev) auto

lemma takeWhile_quiet:
  "list_all quiet A \<Longrightarrow>
     takeWhile (\<lambda>ev. \<not> is_mutation ev) (A @ B) = A @ takeWhile (\<lambda>ev. \<not> is_mutation ev) B"
  by (induction A) (auto simp: quiet_not_mutation)

lemma dropWhile_quiet:
  "list_all quiet A \<Longrightarrow>
     dropWhile (\<lambda>ev. \<not> is_mutation ev) (A @ B) = dropWhile (\<lambda>ev. \<not> is_mutation ev) B"
  by (induction A) (auto simp: quiet_not_mutation)

lemma filter_write_quiet: "list_all quiet A \<Longrightarrow> filter is_write A = []"
  by (induction A) (auto simp: quiet_not_write)

lemma filter_write_no_io: "list_all no_io C \<Longrightarrow> filter is_write C = []"
proof (induction C)
  case Nil
  show ?case by simp
next
  case (Cons ev C)
  then show ?case by (cases ev) auto
qed

lemma quiet_no_input: "list_all quiet A \<Longrightarrow> Input p a \<notin> set A"
  by (induction A) auto

lemma no_io_no_input: "list_all no_io A \<Longrightarrow> Input p a \<notin> set A"
  by (induction A) auto

lemma quiet_no_mutation: "list_all quiet A \<Longrightarrow> ev \<in> set A \<Longrightarrow> \<not> is_mutation ev"
  by (induction A) (auto simp: quiet_not_mutation)

lemma confirm_and_load_gated:
  "\<exists>B. snd (confirm_and_load E tn sql s g data t) = t @ B \<and>
       gated (tn @ ''_table_structure.sql'') sql (fst (confirm_and_load E tn sql s g data t)) B"
proof -
  let ?f = "tn @ ''_table_structure.sql''"
  show ?thesis
  proof (cases "fs_write E t ?f sql")
    case (Some m)
    then have "confirm_and_load E tn sql s g data t =
        (Inl (Raised OSError m), t @ [WriteFile ?f sql (Some m)])"
      by (simp add: confirm_and_load_def write_file_def call_def bnd_def)
    then show ?thesis by (simp add: gated_def)
  next
    case wrote: None
    let ?t1 = "t @ [WriteFile ?f sql None]"
    show ?thesis
    proof (cases "stdin E ?t1 confirm_prompt")
      case None
      with wrote have "confirm_and_load E tn sql s g data t =
          (Inl (Raised EOFError ''EOF when reading a line''),
           t @ [WriteFile ?f sql None, Input confirm_prompt None])"
        by (simp add: confirm_and_load_def write_file_def call_def bnd_def py_input_def Let_def)
      then show ?thesis by (simp add: gated_def)
    next
      case (Some a)
      let ?t2 = "t @ [WriteFile ?f sql None, Input confirm_prompt (Some a)]"
      show ?thesis
      proof (cases "lower a \<in> {''yes'', ''y''}")
        case False
        with wrote Some have "confirm_and_load E tn sql s g data t =
            (Inr False, ?t2 @ [Print ''Operation cancelled by user.''])"
          by (simp add: confirm_and_load_def write_file_def call_def bnd_def py_input_def Let_def
                print_def emit_def ret_def)
        with False show ?thesis by (simp add: gated_def)
      next
        case True
        let ?oc = "db_execute E ?t2 sql []"
        let ?t3 = "?t2 @ [DbExecute sql [] ?oc]"
        have "emits no_io (insert_features E tn s g data)"
          by (rule emits_insert_features) simp_all
        then obtain C where c: "snd (insert_features E tn s g data ?t3) = ?t3 @ C" "list_all no_io C"
          unfolding emits_def by blast
        show ?thesis
        proof (cases ?oc)
          case None
          with wrote Some True have "confirm_and_load E tn sql s g data t =
              insert_features E tn s g data ?t3"
            by (auto simp add: confirm_and_load_def write_file_def call_def bnd_def py_input_def
                  Let_def cursor_execute_def)
          with c True show ?thesis by (simp add: gated_def)
        next
          case failed: (Some m)
          with wrote Some True have "confirm_and_load E tn sql s g data t =
              (Inl (Raised DatabaseError m), ?t3)"
            by (auto simp add: confirm_and_load_def write_file_def call_def bnd_def py_input_def
                  Let_def cursor_execute_def)
          with True show ?thesis by (simp add: gated_def)
        qed
      qed
    qed
  qed
qed

lemma gated_handler: "gated f sql r B \<Longrightarrow> gated f sql (Inr False) (B @ [Print x])"
  unfolding gated_def by (elim disjE exE conjE) simp_all

lemma ingest_shape:
  "\<exists>A B. snd (ingest_geojson_to_postgis E p tn s g t) = t @ A @ B \<and> list_all quiet A \<and>
     (B = [] \<or>
      (\<exists>sql. prefix (create_header (replace_char CHR ''-'' CHR ''_'' tn)) sql \<and>
         gated (replace_char CHR ''-'' CHR ''_'' tn @ ''_table_structure.sql'') sql
           (fst (ingest_geojson_to_postgis E p tn s g t)) B))"
proof -
  let ?T = "replace_char CHR ''-'' CHR ''_'' tn"
  let ?ing = "ingest_geojson_to_postgis E p tn s g t"
  have "emits quiet (examine_geojson E p)"
    by (rule emits_examine) simp_all
  then obtain A1 where a1: "snd (examine_geojson E p t) = t @ A1" "list_all quiet A1"
    unfolding emits_def by blast
  show ?thesis
  proof (cases "fst (examine_geojson E p t)")
    case (Inl e)
    with a1 have "examine_geojson E p t = (Inl e, t @ A1)"
      by (simp add: prod_eq_iff)
    then have "?ing = (Inr False, t @ A1 @ [Print (''Error ingesting GeoJSON: '' @ exc_str e)])"
      by (simp add: ingest_geojson_to_postgis_def Let_def monad_defs)
    with a1 show ?thesis
      by (intro exI [of _ "A1 @ [Print (''Error ingesting GeoJSON: '' @ exc_str e)]"] exI [of _ "[]"])
        simp
  next
    case (Inr found)
    with a1 have ex: "examine_geojson E p t = (Inr found, t @ A1)"
      by (simp add: prod_eq_iff)
    show ?thesis
    proof (cases found)
      case None
      with ex have "?ing = (Inr False, t @ A1)"
        by (simp add: ingest_geojson_to_postgis_def Let_def monad_defs)
      with a1 show ?thesis
        by (intro exI [of _ A1] exI [of _ "[]"]) simp
    next
      case (Some info)
      let ?syn = "synthesize_table E ?T s g info (t @ A1)"
      have "emits quiet (synthesize_table E ?T s g info)"
        by (rule emits_synthesize_table) simp_all
      then obtain A2 where a2: "snd ?syn = (t @ A1) @ A2" "list_all quiet A2"
        unfolding emits_def by blast
      show ?thesis
      proof (cases "fst ?syn")
        case (Inl e)
        with a2 have "?syn = (Inl e, (t @ A1) @ A2)"
          by (simp add: prod_eq_iff)
        with ex Some have "?ing =
            (Inr False, t @ (A1 @ A2 @ [Print (''Error ingesting GeoJSON: '' @ exc_str e)]))"
          by (simp add: ingest_geojson_to_postgis_def Let_def monad_defs)
        with a1 a2 show ?thesis
          by (intro exI [of _ "A1 @ A2 @ [Print (''Error ingesting GeoJSON: '' @ exc_str e)]"]
                exI [of _ "[]"]) simp
      next
        case (Inr x)
        obtain sql src where x: "x = (sql, src)" by (cases x)
        from Inr have pre: "prefix (create_header ?T) sql"
          using synthesize_table_sql [of E ?T s g info "t @ A1" x] x by simp
        from Inr a2 x have syn: "?syn = (Inr (sql, src), (t @ A1) @ A2)"
          by (simp add: prod_eq_iff)
        let ?cal = "confirm_and_load E ?T sql src g (raw_data info) ((t @ A1) @ A2)"
        from confirm_and_load_gated [of E ?T sql src g "raw_data info" "(t @ A1) @ A2"]
        obtain B where b: "snd ?cal = ((t @ A1) @ A2) @ B"
          "gated (?T @ ''_table_structure.sql'') sql (fst ?cal) B"
          by blast
        show ?thesis
        proof (cases "fst ?cal")
          case (Inl e)
          with b have "?cal = (Inl e, ((t @ A1) @ A2) @ B)"
            by (simp add: prod_eq_iff)
          with ex Some syn have "?ing =
              (Inr False, t @ (A1 @ A2) @ (B @ [Print (''Error ingesting GeoJSON: '' @ exc_str e)]))"
            by (simp add: ingest_geojson_to_postgis_def Let_def monad_defs)
          moreover from b(2) have "gated (?T @ ''_table_structure.sql'') sql (Inr False)
              (B @ [Print (''Error ingesting GeoJSON: '' @ exc_str e)])"
            by (rule gated_handler)
          ultimately show ?thesis using a1 a2 pre
            by (intro exI [of _ "A1 @ A2"]
                  exI [of _ "B @ [Print (''Error ingesting GeoJSON: '' @ exc_str e)]"]) auto
        next
          case (Inr b')
          with b have "?cal = (Inr b', ((t @ A1) @ A2) @ B)"
            by (simp add: prod_eq_iff)
          with ex Some syn have "?ing = (Inr b', t @ (A1 @ A2) @ B)"
            by (simp add: ingest_geojson_to_postgis_def Let_def monad_defs)
          with b(2) Inr a1 a2 pre show ?thesis
            by (intro exI [of _ "A1 @ A2"] exI [of _ B]) auto
        qed
      qed
    qed
  qed
qed

subsection \<open>Confirmation and the side file\<close>

lemma dropWhile_quiet_Nil: "list_all quiet T \<Longrightarrow> dropWhile (\<lambda>ev. \<not> is_mutation ev) T = []"
  by (induction T) (auto simp: quiet_not_mutation)

lemma gated_cases:
  assumes "gated f sql r B"
  obtains (unwritten) m T where "B = WriteFile f sql (Some m) # T" "list_all quiet T"
    | (eof) T where "B = WriteFile f sql None # Input confirm_prompt None # T" "list_all quiet T"
    | (declined) a T where "B = WriteFile f sql None # Input confirm_prompt (Some a) # T"
        "lower a \<notin> {''yes'', ''y''}" "list_all quiet T" "r = Inr False"
    | (accepted) a oc C where
        "B = WriteFile f sql None # Input confirm_prompt (Some a) # DbExecute sql [] oc # C"
        "lower a \<in> {''yes'', ''y''}" "list_all no_io C"
  using assms unfolding gated_def by (elim disjE exE conjE) blast+

lemma quiet_trace:
  assumes "list_all quiet A"
  shows "\<forall>ev \<in> set A. \<not> is_mutation ev" and "\<forall>p a. Input p a \<notin> set A"
  using assms by (auto simp: quiet_no_input dest: quiet_no_mutation)


text \<open>
  C7. In every run, every statement executed and every commit comes after an affirmative
  answer to the confirmation prompt: the events before the first of them hold that answer.
  When the answer, lowercased, is neither \<open>yes\<close> nor \<open>y\<close>, nothing is executed or committed
  and the function returns \<^verbatim>\<open>False\<close>.
\<close>

theorem confirmation_gates_mutation:
  "\<exists>ext. snd (ingest_geojson_to_postgis E p tn s g t) = t @ ext \<and>
     (\<forall>ev \<in> set ext. is_mutation ev \<longrightarrow>
        (\<exists>a. Input confirm_prompt (Some a) \<in> set (takeWhile (\<lambda>ev. \<not> is_mutation ev) ext) \<and>
             lower a \<in> {''yes'', ''y''})) \<and>
     (\<forall>a. Input confirm_prompt (Some a) \<in> set ext \<and> lower a \<notin> {''yes'', ''y''} \<longrightarrow>
        (\<forall>ev \<in> set ext. \<not> is_mutation ev) \<and>
        fst (ingest_geojson_to_postgis E p tn s g t) = Inr False)"
proof -
  let ?ing = "ingest_geojson_to_postgis E p tn s g t"
  let ?f = "replace_char CHR ''-'' CHR ''_'' tn @ ''_table_structure.sql''"
  let ?goal = "\<lambda>ext. (\<forall>ev \<in> set ext. is_mutation ev \<longrightarrow>
        (\<exists>a. Input confirm_prompt (Some a) \<in> set (takeWhile (\<lambda>ev. \<not> is_mutation ev) ext) \<and>
             lower a \<in> {''yes'', ''y''})) \<and>
     (\<forall>a. Input confirm_prompt (Some a) \<in> set ext \<and> lower a \<notin> {''yes'', ''y''} \<longrightarrow>
        (\<forall>ev \<in> set ext. \<not> is_mutation ev) \<and> fst ?ing = Inr False)"
  from ingest_shape [of E p tn s g t] obtain A B where
    sh: "snd ?ing = t @ A @ B" "list_all quiet A"
      "B = [] \<or> (\<exists>sql. gated ?f sql (fst ?ing) B)"
    by blast
  note qa = quiet_trace [OF sh(2)]
  have "?goal (A @ B)"
  proof (cases "B = []")
    case True
    have "\<forall>ev \<in> set (A @ B). \<not> is_mutation ev"
      using True qa(1) by auto
    moreover have "\<forall>a. Input confirm_prompt (Some a) \<notin> set (A @ B)"
      using True qa(2) by auto
    ultimately show ?thesis by blast
  next
    case False
    with sh(3) obtain sql where "gated ?f sql (fst ?ing) B" by blast
    then show ?thesis
    proof (cases rule: gated_cases)
      case (unwritten m T)
      note qt = quiet_trace [OF unwritten(2)]
      have "\<forall>ev \<in> set (A @ B). \<not> is_mutation ev"
        using unwritten(1) qa(1) qt(1) by auto
      moreover have "\<forall>a. Input confirm_prompt (Some a) \<notin> set (A @ B)"
        using unwritten(1) qa(2) qt(2) by auto
      ultimately show ?thesis by blast
    next
      case (eof T)
      note qt = quiet_trace [OF eof(2)]
      have "\<forall>ev \<in> set (A @ B). \<not> is_mutation ev"
        using eof(1) qa(1) qt(1) by auto
      moreover have "\<forall>a. Input confirm_prompt (Some a) \<notin> set (A @ B)"
        using eof(1) qa(2) qt(2) by auto
      ultimately show ?thesis by blast
    next
      case (declined a T)
      note qt = quiet_trace [OF declined(3)]
      have "\<forall>ev \<in> set (A @ B). \<not> is_mutation ev"
        using declined(1) qa(1) qt(1) by auto
      with declined(4) show ?thesis by blast
    next
      case (accepted a oc C)
      have tw: "takeWhile (\<lambda>ev. \<not> is_mutation ev) (A @ B) =
          A @ [WriteFile ?f sql None, Input confirm_prompt (Some a)]"
        using sh(2) accepted(1) by (simp add: takeWhile_quiet)
      have inputs: "a' = a" if "Input confirm_prompt (Some a') \<in> set (A @ B)" for a'
        using that qa(2) accepted(1) no_io_no_input [OF accepted(3)] by simp
      show ?thesis
      proof (intro conjI ballI allI impI)
        fix ev assume "ev \<in> set (A @ B)" "is_mutation ev"
        from accepted(2) show "\<exists>a. Input confirm_prompt (Some a)
            \<in> set (takeWhile (\<lambda>ev. \<not> is_mutation ev) (A @ B)) \<and> lower a \<in> {''yes'', ''y''}"
          unfolding tw by (intro exI [of _ a]) simp
      next
        fix a' ev
        assume "Input confirm_prompt (Some a') \<in> set (A @ B) \<and> lower a' \<notin> {''yes'', ''y''}"
        with inputs [of a'] accepted(2) have False by simp
        then show "\<not> is_mutation ev" ..
      next
        fix a'
        assume "Input confirm_prompt (Some a') \<in> set (A @ B) \<and> lower a' \<notin> {''yes'', ''y''}"
        with inputs [of a'] accepted(2) have False by simp
        then show "fst ?ing = Inr False" ..
      qed
    qed
  qed
  with sh(1) show ?thesis by blast
qed

text \<open>
  C6. In every run that executes a statement, the first statement executed is the
  \<^verbatim>\<open>CREATE TABLE\<close> for the sanitized table name, and before it exactly that text was
  written, without error, to the file named after the sanitized table name. That write is
  the only write of the run, so the file still holds the statement when it is executed.
\<close>

theorem ddl_written_before_executed:
  "\<exists>ext. snd (ingest_geojson_to_postgis E p tn s g t) = t @ ext \<and>
     (\<forall>ev post. dropWhile (\<lambda>ev. \<not> is_mutation ev) ext = ev # post \<longrightarrow>
        (\<exists>sql oc. ev = DbExecute sql [] oc \<and>
           prefix (create_header (replace_char CHR ''-'' CHR ''_'' tn)) sql \<and>
           filter is_write ext =
             [WriteFile (replace_char CHR ''-'' CHR ''_'' tn @ ''_table_structure.sql'') sql None] \<and>
           WriteFile (replace_char CHR ''-'' CHR ''_'' tn @ ''_table_structure.sql'') sql None
             \<in> set (takeWhile (\<lambda>ev. \<not> is_mutation ev) ext)))"
proof -
  let ?ing = "ingest_geojson_to_postgis E p tn s g t"
  let ?T = "replace_char CHR ''-'' CHR ''_'' tn"
  let ?f = "?T @ ''_table_structure.sql''"
  let ?goal = "\<lambda>ext. \<forall>ev post. dropWhile (\<lambda>ev. \<not> is_mutation ev) ext = ev # post \<longrightarrow>
        (\<exists>sql oc. ev = DbExecute sql [] oc \<and> prefix (create_header ?T) sql \<and>
           filter is_write ext = [WriteFile ?f sql None] \<and>
           WriteFile ?f sql None \<in> set (takeWhile (\<lambda>ev. \<not> is_mutation ev) ext))"
  from ingest_shape [of E p tn s g t] obtain A B where
    sh: "snd ?ing = t @ A @ B" "list_all quiet A"
      "B = [] \<or> (\<exists>sql. prefix (create_header ?T) sql \<and> gated ?f sql (fst ?ing) B)"
    by blast
  have "?goal (A @ B)"
  proof (cases "B = []")
    case True
    then show ?thesis
      by (simp add: dropWhile_quiet_Nil [OF sh(2)])
  next
    case False
    with sh(3) obtain sql where pre: "prefix (create_header ?T) sql"
      and gt: "gated ?f sql (fst ?ing) B" by blast
    from gt show ?thesis
    proof (cases rule: gated_cases)
      case (unwritten m T)
      then show ?thesis
        by (simp add: dropWhile_quiet [OF sh(2)] dropWhile_quiet_Nil)
    next
      case (eof T)
      then show ?thesis
        by (simp add: dropWhile_quiet [OF sh(2)] dropWhile_quiet_Nil)
    next
      case (declined a T)
      then show ?thesis
        by (simp add: dropWhile_quiet [OF sh(2)] dropWhile_quiet_Nil)
    next
      case (accepted a oc C)
      with pre show ?thesis
        by (simp add: dropWhile_quiet [OF sh(2)] takeWhile_quiet [OF sh(2)]
              filter_write_quiet [OF sh(2)] filter_write_no_io)
    qed
  qed
  with sh(1) show ?thesis by blast
qed

subsection \<open>The insert loop\<close>

lemma row_of_ok:
  "is_row_feature f \<Longrightarrow> \<exists>sql ps. row_of E tn s g f = Inr (sql, ps)"
  by (cases f) (auto simp: row_of_def and_then_def split: option.splits json.splits)

lemma insert_loop_run:
  assumes "list_all is_row_feature fs"
  shows "\<exists>ext. insert_loop E tn s g n fs k t = (Inr (k + length (filter succeeded ext)), t @ ext) \<and>
           map Inr (executed ext) = map (row_of E tn s g) fs \<and>
           failures_logged ext \<and> (\<forall>ev \<in> set ext. \<not> is_commit ev)"
  using assms
proof (induction fs arbitrary: k t)
  case Nil
  show ?case by (simp add: ret_def)
next
  case (Cons f fs)
  from Cons.prems have f: "is_row_feature f" and fs: "list_all is_row_feature fs"
    by simp_all
  from row_of_ok [OF f] obtain sql ps where row: "row_of E tn s g f = Inr (sql, ps)"
    by blast
  let ?oc = "db_execute E t sql ps"
  let ?x = "DbExecute sql ps ?oc"
  show ?case
  proof (cases ?oc)
    case (Some m)
    let ?blk = "[?x, Print (''Error inserting feature: '' @ m)]"
    from row Some have step: "insert_loop E tn s g n (f # fs) k t =
        insert_loop E tn s g n fs k (t @ ?blk)"
      by (simp add: monad_defs cursor_execute_def)
    from Cons.IH [OF fs, of k "t @ ?blk"] obtain ext where
      ih: "insert_loop E tn s g n fs k (t @ ?blk) =
            (Inr (k + length (filter succeeded ext)), (t @ ?blk) @ ext)"
        "map Inr (executed ext) = map (row_of E tn s g) fs"
        "failures_logged ext" "\<forall>ev \<in> set ext. \<not> is_commit ev"
      by blast
    from step ih row Some show ?thesis
      by (intro exI [of _ "?blk @ ext"]) simp
  next
    case None
    let ?blk = "?x # (if (k + 1) mod 100 = 0 \<or> k + 1 = n
        then [Print (''Progress: '' @ str_nat (k + 1) @ ''/'' @ str_nat n @
                     '' features inserted ('' @ str_int (percent E (k + 1) n) @ ''%)'')]
        else [])"
    from row None have step: "insert_loop E tn s g n (f # fs) k t =
        insert_loop E tn s g n fs (k + 1) (t @ ?blk)"
      by (simp add: monad_defs cursor_execute_def)
    from Cons.IH [OF fs, of "k + 1" "t @ ?blk"] obtain ext where
      ih: "insert_loop E tn s g n fs (k + 1) (t @ ?blk) =
            (Inr (k + 1 + length (filter succeeded ext)), (t @ ?blk) @ ext)"
        "map Inr (executed ext) = map (row_of E tn s g) fs"
        "failures_logged ext" "\<forall>ev \<in> set ext. \<not> is_commit ev"
      by blast
    from step ih row None show ?thesis
      by (intro exI [of _ "?blk @ ext"]) simp
  qed
qed

text \<open>
  C3. Lines 148 to 189, for features that are objects with a property mapping. Whatever
  the database answers to each insert, one insert is attempted for every feature, in
  order, all of them before the commit; every insert that raises is followed by the line
  logging its error; there is exactly one commit and nothing is executed after it; and
  when the commit returns, the function returns \<^verbatim>\<open>True\<close> after printing the completion
  message with the number of inserts that did not raise and the number of features.
\<close>

theorem row_failures_are_skipped:
  assumes "py_getitem data ''features'' = Inr (JArr fs)" and "list_all is_row_feature fs"
  shows "\<exists>pre oc post. snd (insert_features E tn s g data t) = t @ pre @ DbCommit oc # post \<and>
           map Inr (executed pre) = map (row_of E tn s g) fs \<and>
           failures_logged pre \<and>
           (\<forall>ev \<in> set pre. \<not> is_commit ev) \<and> (\<forall>ev \<in> set post. \<not> is_mutation ev) \<and>
           (oc = None \<longrightarrow>
              fst (insert_features E tn s g data t) = Inr True \<and>
              post = [Print (completed_message (length (filter succeeded pre)) (length fs)),
                      Print (''Data was automatically transformed from EPSG:'' @ str_int s @
                             '' to EPSG:'' @ str_int g)])"
proof -
  let ?start = "Print (nl @ ''Inserting '' @ str_nat (length fs) @ '' features into the database...'')"
  from insert_loop_run [OF assms(2), of E tn s g "length fs" 0 "t @ [?start]"] obtain ext where
    loop: "insert_loop E tn s g (length fs) fs 0 (t @ [?start]) =
             (Inr (length (filter succeeded ext)), (t @ [?start]) @ ext)"
      "map Inr (executed ext) = map (row_of E tn s g) fs"
      "failures_logged ext" "\<forall>ev \<in> set ext. \<not> is_commit ev"
    by auto
  let ?t = "(t @ [?start]) @ ext"
  let ?oc = "db_commit E ?t"
  let ?post = "case ?oc of
      None \<Rightarrow> [Print (completed_message (length (filter succeeded ext)) (length fs)),
               Print (''Data was automatically transformed from EPSG:'' @ str_int s @
                      '' to EPSG:'' @ str_int g)]
    | Some m \<Rightarrow> []"
  have run: "insert_features E tn s g data t =
      (case ?oc of None \<Rightarrow> Inr True | Some m \<Rightarrow> Inl (Raised DatabaseError m),
       ?t @ DbCommit ?oc # ?post)"
    using assms(1) loop(1)
    by (simp add: insert_features_def monad_defs conn_commit_def split: option.splits)
  have "length (filter succeeded (?start # ext)) = length (filter succeeded ext)"
    by simp
  with run loop(2-4) show ?thesis
    by (intro exI [of _ "?start # ext"] exI [of _ ?oc] exI [of _ ?post])
      (auto split: option.splits)
qed

subsection \<open>Runs on the example inputs\<close>

lemma lower_No: "lower ''No'' = ''no''"
  by code_simp

lemma lower_yes: "lower ''yes'' = ''yes''"
  by code_simp

lemmas run_defs = ingest_geojson_to_postgis_def synthesize_table_def confirm_and_load_def
  insert_features_def insert_loop.simps row_of_def resolve_source_srid_def detect_crs_def
  conn_cursor_def cursor_execute_def conn_commit_def write_file_def py_input_def
  column_def_def col_type_def postgis_type_of_def postgis_type_map_def
  replace_char_def Let_def

lemmas example_run_defs = three_points_def example_defs examine_defs monad_defs run_defs
  lower_No lower_yes

lemma my_table: "replace_char CHR ''-'' CHR ''_'' ''my-table'' = ''my_table''"
  by (simp add: replace_char_def)

text \<open>C10, for the table name \<open>my-table\<close> and a run that creates the table and inserts.\<close>

theorem table_name_sanitization_witness:
  "replace_char CHR ''-'' CHR ''_'' ''my-table'' = ''my_table'' \<and>
   list_all (names_table ''my_table'')
     (snd (ingest_geojson_to_postgis (example_env three_points ''yes'') ''f.geojson''
             ''my-table'' None 4326 []))"
proof -
  have san: "replace_char CHR ''-'' CHR ''_'' ''my-table'' = ''my_table''"
    by (simp add: replace_char_def)
  from table_name_sanitization [where tn = "''my-table''" and E = "example_env three_points ''yes''"
      and p = "''f.geojson''" and s = None and g = 4326]
  have "emits (names_table ''my_table'')
      (ingest_geojson_to_postgis (example_env three_points ''yes'') ''f.geojson''
         ''my-table'' None 4326)"
    using san by simp
  then have "\<exists>ext. snd (ingest_geojson_to_postgis (example_env three_points ''yes'') ''f.geojson''
         ''my-table'' None 4326 []) = [] @ ext \<and> list_all (names_table ''my_table'') ext"
    unfolding emits_def by blast
  with san show ?thesis by simp
qed

text \<open>
  C3, with three point features of which the second cannot be inserted: the tally is
  \<open>2 out of 3\<close>.
\<close>

theorem row_failures_are_skipped_witness:
  "py_getitem three_points ''features'' =
     Inr (JArr [typed_feature ''Point'' (JObj [(''label'', JStr ''A'')]),
                typed_feature ''Point'' (JObj [(''label'', JObj [(''nested'', JInt 1)])]),
                typed_feature ''Point'' (JObj [(''label'', JStr ''C'')])]) \<and>
   list_all is_row_feature
     [typed_feature ''Point'' (JObj [(''label'', JStr ''A'')]),
      typed_feature ''Point'' (JObj [(''label'', JObj [(''nested'', JInt 1)])]),
      typed_feature ''Point'' (JObj [(''label'', JStr ''C'')])] \<and>
   (\<exists>pre post.
      snd (insert_features (example_env three_points ''yes'') ''my_table'' 4326 4326 three_points []) =
        pre @ DbCommit None # post \<and>
      length (executed pre) = 3 \<and> failures_logged pre \<and>
      fst (insert_features (example_env three_points ''yes'') ''my_table'' 4326 4326 three_points []) =
        Inr True \<and>
      hd post = Print (completed_message (length (filter succeeded pre)) 3)) \<and>
   Print (nl @ ''Completed: 2 out of 3 features inserted successfully.'')
     \<in> set (snd (insert_features (example_env three_points ''yes'') ''my_table'' 4326 4326
                    three_points []))"
proof -
  let ?fs = "[typed_feature ''Point'' (JObj [(''label'', JStr ''A'')]),
      typed_feature ''Point'' (JObj [(''label'', JObj [(''nested'', JInt 1)])]),
      typed_feature ''Point'' (JObj [(''label'', JStr ''C'')])]"
  let ?run = "insert_features (example_env three_points ''yes'') ''my_table'' 4326 4326 three_points []"
  have h1: "py_getitem three_points ''features'' = Inr (JArr ?fs)"
    by (simp add: three_points_def collection_def)
  have h2: "list_all is_row_feature ?fs"
    by (simp add: typed_feature_def)
  have tally: "Print (nl @ ''Completed: 2 out of 3 features inserted successfully.'') \<in> set (snd ?run)"
    by (simp add: example_run_defs completed_message_def)
  from row_failures_are_skipped [OF h1 h2, of "example_env three_points ''yes''" "''my_table''"
      4326 4326 "[]"]
  obtain pre oc post where r: "snd ?run = pre @ DbCommit oc # post"
    "map Inr (executed pre) = map (row_of (example_env three_points ''yes'') ''my_table'' 4326 4326) ?fs"
    "failures_logged pre"
    "oc = None \<longrightarrow> fst ?run = Inr True \<and>
       post = [Print (completed_message (length (filter succeeded pre)) (length ?fs)),
               Print (''Data was automatically transformed from EPSG:'' @ str_int 4326 @
                      '' to EPSG:'' @ str_int 4326)]"
    by auto
  have committed: "DbCommit (Some m) \<notin> set (snd ?run)" for m
    by (simp add: example_run_defs)
  with r(1) have oc: "oc = None"
    by (cases oc) auto
  have len: "length (executed pre) = 3"
    using arg_cong [OF r(2), of length] by simp
  from r(4) oc have ok: "fst ?run = Inr True"
    by simp
  from r(4) oc have "hd post = Print (completed_message (length (filter succeeded pre)) (length ?fs))"
    by simp
  then have hd: "hd post = Print (completed_message (length (filter succeeded pre)) 3)"
    by (simp add: numeral_3_eq_3)
  from r(1) oc have run: "snd ?run = pre @ DbCommit None # post"
    by simp
  from run len r(3) ok hd have "\<exists>pre post. snd ?run = pre @ DbCommit None # post \<and>
      length (executed pre) = 3 \<and> failures_logged pre \<and> fst ?run = Inr True \<and>
      hd post = Print (completed_message (length (filter succeeded pre)) 3)"
    by blast
  with h1 h2 tally show ?thesis
    by blast
qed

text \<open>
  C6, in a run where the operator answers \<open>yes\<close>: a statement is executed, and the side
  file \<open>my_table_table_structure.sql\<close> holds it.
\<close>

theorem ddl_written_before_executed_witness:
  "dropWhile (\<lambda>ev. \<not> is_mutation ev)
     (snd (ingest_geojson_to_postgis (example_env three_points ''yes'') ''f.geojson''
             ''my-table'' None 4326 [])) \<noteq> [] \<and>
   (\<exists>sql oc.
      hd (dropWhile (\<lambda>ev. \<not> is_mutation ev)
            (snd (ingest_geojson_to_postgis (example_env three_points ''yes'') ''f.geojson''
                    ''my-table'' None 4326 []))) = DbExecute sql [] oc \<and>
      prefix (create_header ''my_table'') sql \<and>
      filter is_write
        (snd (ingest_geojson_to_postgis (example_env three_points ''yes'') ''f.geojson''
                ''my-table'' None 4326 [])) =
        [WriteFile ''my_table_table_structure.sql'' sql None])"
proof -
  let ?run = "ingest_geojson_to_postgis (example_env three_points ''yes'') ''f.geojson''
                ''my-table'' None 4326 []"
  have h: "dropWhile (\<lambda>ev. \<not> is_mutation ev) (snd ?run) \<noteq> []"
    by (simp add: example_run_defs)
  then obtain ev post where d: "dropWhile (\<lambda>ev. \<not> is_mutation ev) (snd ?run) = ev # post"
    by (cases "dropWhile (\<lambda>ev. \<not> is_mutation ev) (snd ?run)") auto
  from ddl_written_before_executed [of "example_env three_points ''yes''" "''f.geojson''"
      "''my-table''" None 4326 "[]"] d
  have "\<exists>sql oc. ev = DbExecute sql [] oc \<and> prefix (create_header ''my_table'') sql \<and>
      filter is_write (snd ?run) = [WriteFile ''my_table_table_structure.sql'' sql None]"
    unfolding my_table by auto
  with h d show ?thesis by simp
qed

text \<open>
  C7, in a run where the operator answers \<open>yes\<close> (the commit comes after the answer) and
  in a run where the operator answers \<open>No\<close> (nothing is executed, the result is \<open>False\<close>).
\<close>

theorem confirmation_gates_mutation_witness:
  "DbCommit None \<in> set (snd (ingest_geojson_to_postgis (example_env three_points ''yes'')
      ''f.geojson'' ''my-table'' None 4326 [])) \<and>
   (\<exists>a. Input confirm_prompt (Some a) \<in> set (takeWhile (\<lambda>ev. \<not> is_mutation ev)
       (snd (ingest_geojson_to_postgis (example_env three_points ''yes'')
          ''f.geojson'' ''my-table'' None 4326 []))) \<and> lower a \<in> {''yes'', ''y''}) \<and>
   Input confirm_prompt (Some ''No'') \<in> set (snd (ingest_geojson_to_postgis
      (example_env three_points ''No'') ''f.geojson'' ''my-table'' None 4326 [])) \<and>
   lower ''No'' \<notin> {''yes'', ''y''} \<and>
   list_all (\<lambda>ev. \<not> is_mutation ev) (snd (ingest_geojson_to_postgis
      (example_env three_points ''No'') ''f.geojson'' ''my-table'' None 4326 [])) \<and>
   fst (ingest_geojson_to_postgis (example_env three_points ''No'')
      ''f.geojson'' ''my-table'' None 4326 []) = Inr False"
proof -
  let ?yes = "ingest_geojson_to_postgis (example_env three_points ''yes'')
      ''f.geojson'' ''my-table'' None 4326 []"
  let ?no = "ingest_geojson_to_postgis (example_env three_points ''No'')
      ''f.geojson'' ''my-table'' None 4326 []"
  have y: "DbCommit None \<in> set (snd ?yes)"
    by (simp add: example_run_defs)
  have n: "Input confirm_prompt (Some ''No'') \<in> set (snd ?no)"
    by (simp add: example_run_defs)
  have l: "lower ''No'' \<notin> {''yes'', ''y''}"
    by (simp add: lower_No)
  from confirmation_gates_mutation [of "example_env three_points ''yes''" "''f.geojson''"
      "''my-table''" None 4326 "[]"] y
  have 1: "\<exists>a. Input confirm_prompt (Some a) \<in> set (takeWhile (\<lambda>ev. \<not> is_mutation ev) (snd ?yes)) \<and>
      lower a \<in> {''yes'', ''y''}"
    by fastforce
  from confirmation_gates_mutation [of "example_env three_points ''No''" "''f.geojson''"
      "''my-table''" None 4326 "[]"] n l
  have 2: "list_all (\<lambda>ev. \<not> is_mutation ev) (snd ?no) \<and> fst ?no = Inr False"
    unfolding list_all_iff by fastforce
  from y 1 n l 2 show ?thesis by blast
qed

subsection \<open>The top-level script\<close>

text \<open>
  C5 (the code on an error path). The connection opens, the version query raises, the
  handler prints the error, and the script ends: the trace holds no close of the
  connection.
\<close>

theorem connection_left_open_on_error:
  "script no_postgis_env [] =
     (Inr (), [DbConnect None, DbCursor None,
               DbExecute ''SELECT postgis_version();'' []
                 (Some ''function postgis_version() does not exist''),
               Print ''Error: function postgis_version() does not exist''])"
  by (simp add: script_def no_postgis_env_def example_env_def monad_defs conn_cursor_def
        cursor_execute_def)

end
